theory Spec2Isabelle
  imports Main "HOL-Library.Word"
begin

unbundle bit_operations_syntax

section \<open>The Go library functions that verify.go calls\<close>

text \<open>
  Go strings are byte sequences, and so is \<^typ>\<open>string\<close>. The functions of package
  \<^verbatim>\<open>strings\<close> are modelled by their documented behaviour on a non-empty separator, the
  only way verify.go calls them (\<^verbatim>\<open>", "\<close> and \<^verbatim>\<open>"="\<close>).
\<close>

text \<open>\<^verbatim>\<open>strings.HasPrefix(s, prefix)\<close>.\<close>

definition HasPrefix :: "string \<Rightarrow> string \<Rightarrow> bool" where
  "HasPrefix s prefix = (take (length prefix) s = prefix)"

text \<open>\<^verbatim>\<open>strings.Index(s, substr)\<close>: the index of the first instance of \<open>substr\<close> in \<open>s\<close>,
  \<open>None\<close> for Go's \<open>-1\<close>.\<close>

fun Index :: "string \<Rightarrow> string \<Rightarrow> nat option" where
  "Index [] substr = (if substr = [] then Some 0 else None)"
| "Index (c # cs) substr =
     (if HasPrefix (c # cs) substr then Some 0
      else map_option Suc (Index cs substr))"

lemma HasPrefix_length: "HasPrefix s p \<Longrightarrow> length p \<le> length s"
proof -
  assume "HasPrefix s p"
  then have "length (take (length p) s) = length p"
    by (simp only: HasPrefix_def)
  then show ?thesis by (simp only: length_take)
qed

lemma Index_bound: "Index s substr = Some i \<Longrightarrow> i + length substr \<le> length s"
proof (induction s arbitrary: i)
  case Nil
  then show ?case by (simp split: if_splits)
next
  case (Cons c cs)
  show ?case
  proof (cases "HasPrefix (c # cs) substr")
    case True
    with Cons.prems HasPrefix_length [OF True] show ?thesis by simp
  next
    case False
    with Cons.prems obtain j where j: "Index cs substr = Some j" "i = Suc j"
      by auto
    from Cons.IH [OF j(1)] j(2) show ?thesis by simp
  qed
qed

text \<open>\<^verbatim>\<open>strings.Count(s, substr)\<close>: the number of non-overlapping instances of \<open>substr\<close>,
  found left to right; for an empty \<open>substr\<close> Go counts the code points and adds one
  (bytes here).\<close>

function Count :: "string \<Rightarrow> string \<Rightarrow> nat" where
  "Count s substr =
     (if substr = [] then length s + 1
      else (case Index s substr of
              None \<Rightarrow> 0
            | Some i \<Rightarrow> Suc (Count (drop (i + length substr) s) substr)))"
  by pat_completeness auto
termination
proof (relation "measure (\<lambda>(s, substr). length s)")
  show "wf (measure (\<lambda>(s, substr). length s))" by simp
next
  fix s substr :: string and i :: nat
  assume ne: "substr \<noteq> []" and ix: "Index s substr = Some i"
  from ne have "0 < length substr" by simp
  with Index_bound [OF ix] have "0 < length s" "0 < i + length substr"
    by linarith+
  then show "((drop (i + length substr) s, substr), (s, substr))
      \<in> measure (\<lambda>(s, substr). length s)"
    by simp
qed

declare Count.simps [simp del]

text \<open>The loop of \<^verbatim>\<open>strings.genSplit\<close>: at most \<open>k\<close> cuts, each at the first instance
  of the separator in what is left; the remainder is the last element.\<close>

fun splitLoop :: "nat \<Rightarrow> string \<Rightarrow> string \<Rightarrow> string list" where
  "splitLoop 0 s sep = [s]"
| "splitLoop (Suc k) s sep =
     (case Index s sep of
        None \<Rightarrow> [s]
      | Some m \<Rightarrow> take m s # splitLoop k (drop (m + length sep) s) sep)"

text \<open>\<^verbatim>\<open>genSplit(s, sep, 0, n)\<close> for a non-empty \<open>sep\<close>: \<open>n = 0\<close> gives no element, a negative
  \<open>n\<close> stands for \<open>Count s sep + 1\<close>, and \<open>n\<close> is capped at \<open>length s + 1\<close>; the loop then
  cuts \<open>n - 1\<close> times. (For an empty separator Go explodes \<open>s\<close> into UTF-8 sequences, a branch
  verify.go never reaches and this model leaves out.)\<close>

definition genSplit :: "string \<Rightarrow> string \<Rightarrow> int \<Rightarrow> string list" where
  "genSplit s sep n =
     (if n = 0 then []
      else let n1 = (if n < 0 then int (Count s sep) + 1 else n);
               n2 = (if n1 > int (length s) + 1 then int (length s) + 1 else n1)
           in splitLoop (nat (n2 - 1)) s sep)"

definition Split :: "string \<Rightarrow> string \<Rightarrow> string list" where
  "Split s sep = genSplit s sep (- 1)"

definition SplitN :: "string \<Rightarrow> string \<Rightarrow> int \<Rightarrow> string list" where
  "SplitN s sep n = genSplit s sep n"

text \<open>\<^verbatim>\<open>strings.Trim(s, cutset)\<close>: \<open>s\<close> without the leading and trailing bytes that are in
  \<open>cutset\<close> (the right end first, as \<^verbatim>\<open>trimLeftByte(trimRightByte(s, c), c)\<close> does).\<close>

definition Trim :: "string \<Rightarrow> string \<Rightarrow> string" where
  "Trim s cutset =
     dropWhile (\<lambda>c. c \<in> set cutset) (rev (dropWhile (\<lambda>c. c \<in> set cutset) (rev s)))"

type_synonym byte = "8 word"

text \<open>\<^verbatim>\<open>subtle.ConstantTimeByteEq\<close>: \<^verbatim>\<open>int((uint32(x^y) - 1) >> 31)\<close>.\<close>

definition ConstantTimeByteEq :: "byte \<Rightarrow> byte \<Rightarrow> nat" where
  "ConstantTimeByteEq x y = unat (drop_bit 31 ((ucast (x XOR y) :: 32 word) - 1))"

text \<open>\<^verbatim>\<open>subtle.ConstantTimeCompare\<close>: 0 on different lengths, otherwise the bytewise
  differences are or-ed into one byte that is compared with 0.\<close>

definition ConstantTimeCompare :: "byte list \<Rightarrow> byte list \<Rightarrow> nat" where
  "ConstantTimeCompare x y =
     (if length x \<noteq> length y then 0
      else ConstantTimeByteEq (fold (\<lambda>(a, b) v. v OR (a XOR b)) (zip x y) 0) 0)"

text \<open>\<^verbatim>\<open>hmac.Equal\<close>.\<close>

definition hmac_Equal :: "byte list \<Rightarrow> byte list \<Rightarrow> bool" where
  "hmac_Equal mac1 mac2 = (ConstantTimeCompare mac1 mac2 = 1)"

section \<open>The data of verify.go\<close>

text \<open>A \<^verbatim>\<open>time.Time\<close> is an instant, here its distance from the epoch; \<^verbatim>\<open>t.After(u)\<close>
  reports whether \<open>t\<close> is later than \<open>u\<close>.\<close>

type_synonym time = int

definition After :: "time \<Rightarrow> time \<Rightarrow> bool" where
  "After t u = (u < t)"

text \<open>The six error values of verify.go. Verify also hands on, unchanged, whatever error
  a canonicalizer returns; \<open>otherError\<close> stands for an error that is none of the six.\<close>

datatype error =
    notSignedError
  | malformedSignatureError
  | unknownKeyError
  | algMismatchError
  | signatureExpiredError
  | invalidSignatureError
  | otherError string

text \<open>\<^verbatim>\<open>signatureParams\<close> is declared outside verify.go; these are the fields that Verify
  reads. \<open>expires\<close> is a \<^verbatim>\<open>*time.Time\<close>, \<open>None\<close> for nil.\<close>

record signatureParams =
  items :: "string list"
  keyID :: string
  alg :: string
  expires :: "time option"

text \<open>\<^verbatim>\<open>verImpl\<close>: \<open>w\<close> is the running hash or MAC; it is represented by the bytes written
  to it so far. \<open>verify\<close> is a closure over that hash, so it takes the bytes written as its
  first argument and the signature as its second.\<close>

record verImpl =
  w :: "byte list"
  verify :: "byte list \<Rightarrow> byte list \<Rightarrow> error option"

text \<open>\<^verbatim>\<open>verifier.w.Write(p)\<close>.\<close>

definition Write :: "verImpl \<Rightarrow> byte list \<Rightarrow> verImpl" where
  "Write impl p = impl\<lparr>w := w impl @ p\<rparr>"

text \<open>\<^verbatim>\<open>verifier.verify(sig)\<close>: the closure run on the hash as it stands.\<close>

definition callVerify :: "verImpl \<Rightarrow> byte list \<Rightarrow> error option" where
  "callVerify impl sig = verify impl (w impl) sig"

record verHolder =
  alg :: string
  verifier :: "unit \<Rightarrow> verImpl"

record verifier =
  keys :: "string \<rightharpoonup> verHolder"
  nowFunc :: "unit \<Rightarrow> time"

text \<open>\<^verbatim>\<open>message\<close> is declared outside verify.go: a method, a URL (of any type \<open>'u\<close>;
  Verify only passes it on) and an \<^verbatim>\<open>http.Header\<close>, a map from canonical header names to
  their values.\<close>

record 'u message =
  Method :: string
  URL :: 'u
  Header :: "string \<rightharpoonup> string list"

text \<open>\<^verbatim>\<open>http.Header.Get\<close>: the first value of the header, the empty string when there is
  none. The two names Verify asks for are in canonical form already.\<close>

definition Get :: "(string \<rightharpoonup> string list) \<Rightarrow> string \<Rightarrow> string" where
  "Get h key = (case h key of None \<Rightarrow> [] | Some [] \<Rightarrow> [] | Some (v # vs) \<Rightarrow> v)"

text \<open>
  What Verify calls and verify.go does not define, taken as parameters:
  \<^item> \<open>parseSignatureInput\<close>, with \<open>None\<close> for a non-nil error;
  \<^item> \<open>DecodeString\<close>, that is \<^verbatim>\<open>base64.StdEncoding.DecodeString\<close>, with \<open>None\<close> for an error;
  \<^item> \<open>canonicalizeRequestTarget\<close> and \<open>canonicalizeHeader\<close>, which get the buffer and
    return an error or the buffer as they leave it;
  \<^item> \<open>canonicalizeSignatureParams\<close>, the bytes it writes to the hash;
  \<^item> \<open>Now\<close>, what \<^verbatim>\<open>time.Now()\<close> returns when line 142 calls it.
\<close>

record 'u deps =
  parseSignatureInput :: "string \<Rightarrow> signatureParams option"
  DecodeString :: "string \<Rightarrow> byte list option"
  canonicalizeRequestTarget :: "byte list \<Rightarrow> string \<Rightarrow> 'u \<Rightarrow> error + byte list"
  canonicalizeHeader :: "byte list \<Rightarrow> string \<Rightarrow> (string \<rightharpoonup> string list) \<Rightarrow> error + byte list"
  canonicalizeSignatureParams :: "signatureParams \<Rightarrow> byte list"
  Now :: time

text \<open>What a call of Verify does: it returns an error or nil, or it panics (a call of a
  nil function, see \<open>verifySelected\<close>).\<close>

datatype outcome = Returns "error option" | Panics

section \<open>Verify\<close>

text \<open>Lines 37, 42, 47 and 48: the two header values and their parts, as functions of the
  message.\<close>

definition sigHdr :: "'u message \<Rightarrow> string" where
  "sigHdr msg = Get (Header msg) ''Signature''"

definition paramHdr :: "'u message \<Rightarrow> string" where
  "paramHdr msg = Get (Header msg) ''Signature-Input''"

definition sigParts :: "'u message \<Rightarrow> string list" where
  "sigParts msg = Split (sigHdr msg) '', ''"

definition paramParts :: "'u message \<Rightarrow> string list" where
  "paramParts msg = Split (paramHdr msg) '', ''"

text \<open>Lines 56 to 74: the loop over the parts of Signature-Input. It returns the error of
  the first part that has no \<^verbatim>\<open>=\<close> or does not parse, or the id and parameters of the first
  part whose key id is in \<open>keys\<close> (where the loop breaks), or \<open>None\<close> when \<open>params\<close> stays
  nil.\<close>

fun selectParams ::
  "'u deps \<Rightarrow> (string \<rightharpoonup> verHolder) \<Rightarrow> string list \<Rightarrow> error + (string \<times> signatureParams) option"
where
  "selectParams d ks [] = Inr None"
| "selectParams d ks (p # ps) =
     (case SplitN p ''='' 2 of
        [sigID, blob] \<Rightarrow>
          (case parseSignatureInput d blob of
             None \<Rightarrow> Inl malformedSignatureError
           | Some candidate \<Rightarrow>
               (case ks (keyID candidate) of
                  Some h \<Rightarrow> Inr (Some (sigID, candidate))
                | None \<Rightarrow> selectParams d ks ps))
      | pParts \<Rightarrow> Inl malformedSignatureError)"

text \<open>Lines 80 to 92: the loop over the parts of Signature. It returns the trimmed value
  of the first part whose id is \<open>sigID\<close>, the empty string when there is none, or the error
  of an earlier part without \<^verbatim>\<open>=\<close>.\<close>

fun findSignature :: "string \<Rightarrow> string list \<Rightarrow> error + string" where
  "findSignature sigID [] = Inr []"
| "findSignature sigID (s # ss) =
     (case SplitN s ''='' 2 of
        [k, v] \<Rightarrow> (if k = sigID then Inr (Trim v '':'') else findSignature sigID ss)
      | sParts \<Rightarrow> Inl malformedSignatureError)"

text \<open>Lines 117 to 131: the loop over \<open>params.items\<close>, writing to the buffer \<open>b\<close>.\<close>

fun canonicalizeItems ::
  "'u deps \<Rightarrow> 'u message \<Rightarrow> string list \<Rightarrow> byte list \<Rightarrow> error + byte list"
where
  "canonicalizeItems d msg [] b = Inr b"
| "canonicalizeItems d msg (h # hs) b =
     (if h = ''@request-target''
      then (case canonicalizeRequestTarget d b (Method msg) (URL msg) of
              Inl err \<Rightarrow> Inl err
            | Inr b' \<Rightarrow> canonicalizeItems d msg hs b')
      else (case canonicalizeHeader d b h (Header msg) of
              Inl err \<Rightarrow> Inl err
            | Inr b' \<Rightarrow> canonicalizeItems d msg hs b'))"

text \<open>Lines 109 to 146, for the registry entry \<open>ver\<close> and the decoded signature \<open>sig\<close>.\<close>

definition verifyBytes ::
  "'u deps \<Rightarrow> 'u message \<Rightarrow> signatureParams \<Rightarrow> verHolder \<Rightarrow> byte list \<Rightarrow> outcome"
where
  "verifyBytes d msg params ver sig =
     (let impl = verifier ver () in
      case canonicalizeItems d msg (items params) [] of
        Inl err \<Rightarrow> Returns (Some err)
      | Inr b \<Rightarrow>
          (let impl1 = Write impl b;
               impl2 = Write impl1 (canonicalizeSignatureParams d params)
           in case callVerify impl2 sig of
                Some err \<Rightarrow> Returns (Some invalidSignatureError)
              | None \<Rightarrow>
                  (if (case expires params of
                         None \<Rightarrow> False
                       | Some e \<Rightarrow> After e (Now d))
                   then Returns (Some signatureExpiredError)
                   else Returns None)))"

text \<open>Lines 80 to 146: what Verify does once \<open>sigID\<close> and \<open>params\<close> are chosen. A key id
  that is not in the map reads the zero \<^verbatim>\<open>verHolder\<close>: its \<open>alg\<close> is empty, so the test of
  line 99 is false, and calling its nil \<open>verifier\<close> at line 109 panics.\<close>

definition verifySelected ::
  "'u deps \<Rightarrow> verifier \<Rightarrow> 'u message \<Rightarrow> string \<Rightarrow> signatureParams \<Rightarrow> outcome"
where
  "verifySelected d v msg sigID params =
     (case findSignature sigID (sigParts msg) of
        Inl err \<Rightarrow> Returns (Some err)
      | Inr signature \<Rightarrow>
          if signature = [] then Returns (Some malformedSignatureError)
          else (case keys v (keyID params) of
                  None \<Rightarrow>
                    (case DecodeString d signature of
                       None \<Rightarrow> Returns (Some malformedSignatureError)
                     | Some sig \<Rightarrow> Panics)
                | Some ver \<Rightarrow>
                    if verHolder.alg ver \<noteq> [] \<and> signatureParams.alg params \<noteq> []
                       \<and> verHolder.alg ver \<noteq> signatureParams.alg params
                    then Returns (Some algMismatchError)
                    else (case DecodeString d signature of
                            None \<Rightarrow> Returns (Some malformedSignatureError)
                          | Some sig \<Rightarrow> verifyBytes d msg params ver sig)))"

text \<open>Lines 36 to 78, and then \<open>verifySelected\<close>.\<close>

definition Verify :: "'u deps \<Rightarrow> verifier \<Rightarrow> 'u message \<Rightarrow> outcome" where
  "Verify d v msg =
     (if sigHdr msg = [] then Returns (Some notSignedError)
      else if paramHdr msg = [] then Returns (Some notSignedError)
      else if length (sigParts msg) \<noteq> length (paramParts msg)
        then Returns (Some malformedSignatureError)
      else (case selectParams d (keys v) (paramParts msg) of
              Inl err \<Rightarrow> Returns (Some err)
            | Inr None \<Rightarrow> Returns (Some unknownKeyError)
            | Inr (Some (sigID, params)) \<Rightarrow> verifySelected d v msg sigID params))"

text \<open>\<^verbatim>\<open>verifyHmacSha256(secret)\<close>. \<open>hmacSha256 key m\<close> is the sum of the hash that
  \<^verbatim>\<open>hmac.New(sha256.New, key)\<close> makes, after \<open>m\<close> was written to it; package \<^verbatim>\<open>crypto/hmac\<close>
  is not part of verify.go, so the function is a parameter.\<close>

definition verifyHmacSha256 ::
  "(byte list \<Rightarrow> byte list \<Rightarrow> byte list) \<Rightarrow> byte list \<Rightarrow> verHolder"
where
  "verifyHmacSha256 hmacSha256 secret =
     \<lparr> alg = ''hmac-sha256'',
       verifier = (\<lambda>_.
         \<lparr> w = [],
           verify = (\<lambda>written in'.
             if \<not> hmac_Equal in' (hmacSha256 secret written)
             then Some invalidSignatureError
             else None) \<rparr>) \<rparr>"

section \<open>A sample registry, message and environment\<close>

text \<open>Concrete values for the parameters, used where a statement is evaluated on an
  input. \<open>sampleParse\<close> knows five parameter blobs and rejects every other string;
  \<open>sampleDecode\<close> knows two base64 strings; the sample canonicalizers write one byte per
  covered item and one for the parameters, and fail on a header that is absent;
  \<open>sampleMac\<close> is a one-byte checksum standing for HMAC-SHA256.\<close>

definition sampleParse :: "string \<Rightarrow> signatureParams option" where
  "sampleParse = map_of
     [(''(Date);keyid=key1'',
         \<lparr>items = [''Date''], keyID = ''key1'', alg = [], expires = None\<rparr>),
      (''(Date);keyid=key1;alg=hmac-sha256'',
         \<lparr>items = [''Date''], keyID = ''key1'', alg = ''hmac-sha256'', expires = None\<rparr>),
      (''(Date);keyid=key1;alg=rsa-pss-sha512'',
         \<lparr>items = [''Date''], keyID = ''key1'', alg = ''rsa-pss-sha512'', expires = None\<rparr>),
      (''(Date);keyid=key1;expires=100'',
         \<lparr>items = [''Date''], keyID = ''key1'', alg = [], expires = Some 100\<rparr>),
      (''(Date);keyid=key2'',
         \<lparr>items = [''Date''], keyID = ''key2'', alg = [], expires = None\<rparr>)]"

definition sampleDecode :: "string \<Rightarrow> byte list option" where
  "sampleDecode = map_of [(''BQ=='', [5]), (''AA=='', [0])]"

definition sampleMac :: "byte list \<Rightarrow> byte list \<Rightarrow> byte list" where
  "sampleMac key m = [fold (XOR) (key @ m) 0]"

definition sampleDeps :: "unit deps" where
  "sampleDeps =
     \<lparr> parseSignatureInput = sampleParse,
       DecodeString = sampleDecode,
       canonicalizeRequestTarget = (\<lambda>b m u. Inr (b @ [2])),
       canonicalizeHeader = (\<lambda>b h hdr.
          case hdr h of None \<Rightarrow> Inl malformedSignatureError | Some vs \<Rightarrow> Inr (b @ [1])),
       canonicalizeSignatureParams = (\<lambda>p. [3]),
       Now = 200 \<rparr>"

definition sampleVerifier :: verifier where
  "sampleVerifier =
     \<lparr> keys = [''key1'' \<mapsto> verifyHmacSha256 sampleMac [7]],
       nowFunc = (\<lambda>_. 200) \<rparr>"

definition sampleMessage :: "string \<Rightarrow> string \<Rightarrow> unit message" where
  "sampleMessage sigValue paramValue =
     \<lparr> Method = ''GET'', URL = (),
       Header = [''Date'' \<mapsto> [''today''],
                 ''Signature'' \<mapsto> [sigValue], ''Signature-Input'' \<mapsto> [paramValue]] \<rparr>"

text \<open>The same message without its Signature-Input header.\<close>

definition sampleMessageNoInput :: "string \<Rightarrow> unit message" where
  "sampleMessageNoInput sigValue =
     \<lparr> Method = ''GET'', URL = (),
       Header = [''Date'' \<mapsto> [''today''], ''Signature'' \<mapsto> [sigValue]] \<rparr>"

text \<open>The messages on which the statements below are evaluated. Each carries one or more
  signatures; \<^verbatim>\<open>BQ==\<close> decodes to the right checksum of the canonical bytes, \<^verbatim>\<open>AA==\<close> to a
  wrong one, and \<^verbatim>\<open>!!!\<close> does not decode.\<close>

text \<open>Three entries: an unknown key, then the registered key twice.\<close>

definition threeEntries :: "unit message" where
  "threeEntries = sampleMessage ''sig1=:AA==:, sig2=:BQ==:, sig3=:AA==:''
     ''sig1=(Date);keyid=key2, sig2=(Date);keyid=key1, sig3=(Date);keyid=key1;alg=rsa-pss-sha512''"

text \<open>A blob that does not parse, after and before the entry with the registered key.\<close>

definition malformedAfterMatch :: "unit message" where
  "malformedAfterMatch =
     sampleMessage ''sig1=:BQ==:, sig2=:BQ==:'' ''sig1=(Date);keyid=key1, sig2=garbage''"

definition malformedBeforeMatch :: "unit message" where
  "malformedBeforeMatch =
     sampleMessage ''sig1=:BQ==:, sig2=:BQ==:, sig3=:BQ==:''
       ''sig1=(Date);keyid=key2, sig2=garbage, sig3=(Date);keyid=key1''"

text \<open>A declared algorithm that is not the registered one, with a signature that decodes
  and with one that does not.\<close>

definition wrongAlg :: "unit message" where
  "wrongAlg = sampleMessage ''sig1=:BQ==:'' ''sig1=(Date);keyid=key1;alg=rsa-pss-sha512''"

definition wrongAlgUndecodable :: "unit message" where
  "wrongAlgUndecodable = sampleMessage ''sig1=:!!!:'' ''sig1=(Date);keyid=key1;alg=rsa-pss-sha512''"

text \<open>A signature value that does not decode, and a Signature header without the
  selected id.\<close>

definition undecodable :: "unit message" where
  "undecodable = sampleMessage ''sig1=:!!!:'' ''sig1=(Date);keyid=key1''"

definition otherId :: "unit message" where
  "otherId = sampleMessage ''sig9=:BQ==:'' ''sig1=(Date);keyid=key1''"

text \<open>A signature with \<open>expires = 100\<close>, cryptographically right and wrong.\<close>

definition expiredMessage :: "unit message" where
  "expiredMessage = sampleMessage ''sig1=:BQ==:'' ''sig1=(Date);keyid=key1;expires=100''"

definition wrongSignature :: "unit message" where
  "wrongSignature = sampleMessage ''sig1=:AA==:'' ''sig1=(Date);keyid=key1;expires=100''"

text \<open>A Signature-Input header whose two entries are separated by a comma alone.\<close>

definition bareComma :: "unit message" where
  "bareComma = sampleMessage ''sig1=:BQ==:, sig2=:AA==:''
     ''sig1=(Date);keyid=key1,sig2=(Date);keyid=key2''"

text \<open>An empty signature value under a declared algorithm that is not the registered one.\<close>

definition emptyValueWrongAlg :: "unit message" where
  "emptyValueWrongAlg = sampleMessage ''sig1=::'' ''sig1=(Date);keyid=key1;alg=rsa-pss-sha512''"

text \<open>Two entries, the first with an unknown key and a signature value that would verify
  under the registered key, the second with the registered key and a wrong signature; and a
  single entry with an unknown key.\<close>

definition selectedSignatureWrong :: "unit message" where
  "selectedSignatureWrong = sampleMessage ''sig1=:BQ==:, sig2=:AA==:''
     ''sig1=(Date);keyid=key2, sig2=(Date);keyid=key1''"

definition unknownKeyOnly :: "unit message" where
  "unknownKeyOnly = sampleMessage ''sig1=:BQ==:'' ''sig1=(Date);keyid=key2''"

text \<open>A parser that differs from \<open>sampleParse\<close> on the blob \<^verbatim>\<open>garbage\<close> only, which it
  accepts.\<close>

definition lenientParse :: "string \<Rightarrow> signatureParams option" where
  "lenientParse blob =
     (if blob = ''garbage''
      then Some \<lparr>items = [''Date''], keyID = ''key1'', alg = [], expires = None\<rparr>
      else sampleParse blob)"

section \<open>Notions used to state the properties\<close>

text \<open>What one part of Signature-Input stands for when it is well formed: the text before
  the first \<^verbatim>\<open>=\<close> as signature id, and the parsed rest. \<open>None\<close> when the part has no \<^verbatim>\<open>=\<close>
  or its blob does not parse.\<close>

definition entryOf :: "'u deps \<Rightarrow> string \<Rightarrow> (string \<times> signatureParams) option" where
  "entryOf d p =
     (case SplitN p ''='' 2 of
        [sigID, blob] \<Rightarrow> map_option (Pair sigID) (parseSignatureInput d blob)
      | pParts \<Rightarrow> None)"

text \<open>The two canonicalizers that can fail never fail with the error \<open>e\<close>.\<close>

definition canonicalizersNeverReturn :: "'u deps \<Rightarrow> error \<Rightarrow> bool" where
  "canonicalizersNeverReturn d e =
     ((\<forall>b m u. canonicalizeRequestTarget d b m u \<noteq> Inl e)
      \<and> (\<forall>b h hdr. canonicalizeHeader d b h hdr \<noteq> Inl e))"

text \<open>The run of Verify reaches the call of \<open>verify\<close> at line 136: both headers are there,
  the lists have one length, \<open>sigID\<close> and \<open>params\<close> are selected, the signature value found
  for \<open>sigID\<close> is \<open>signature\<close> and not empty, the key's entry is \<open>ver\<close>, the algorithm labels
  do not clash, \<open>signature\<close> decodes to \<open>sig\<close>, and the covered items canonicalize to the
  buffer \<open>b\<close>.\<close>

definition reachesVerify ::
  "'u deps \<Rightarrow> verifier \<Rightarrow> 'u message \<Rightarrow> string \<Rightarrow> signatureParams \<Rightarrow> string \<Rightarrow> verHolder
    \<Rightarrow> byte list \<Rightarrow> byte list \<Rightarrow> bool"
where
  "reachesVerify d v msg sigID params signature ver sig b =
     (sigHdr msg \<noteq> [] \<and> paramHdr msg \<noteq> []
      \<and> length (sigParts msg) = length (paramParts msg)
      \<and> selectParams d (keys v) (paramParts msg) = Inr (Some (sigID, params))
      \<and> findSignature sigID (sigParts msg) = Inr signature \<and> signature \<noteq> []
      \<and> keys v (keyID params) = Some ver
      \<and> \<not> (verHolder.alg ver \<noteq> [] \<and> signatureParams.alg params \<noteq> []
             \<and> verHolder.alg ver \<noteq> signatureParams.alg params)
      \<and> DecodeString d signature = Some sig
      \<and> canonicalizeItems d msg (items params) [] = Inr b)"

text \<open>The instance as it is when \<open>verify\<close> is called: fresh from the entry's constructor,
  then the buffer and the parameters line written to it (lines 109, 133 and 134).\<close>

definition fedInstance :: "'u deps \<Rightarrow> signatureParams \<Rightarrow> verHolder \<Rightarrow> byte list \<Rightarrow> verImpl" where
  "fedInstance d params ver b =
     Write (Write (verifier ver ()) b) (canonicalizeSignatureParams d params)"

section \<open>Facts about the library functions\<close>

lemma Count_le_length: "sep \<noteq> [] \<Longrightarrow> Count s sep \<le> length s"
proof (induction s sep rule: Count.induct)
  case (1 s substr)
  show ?case
  proof (cases "Index s substr")
    case None
    with "1.prems" show ?thesis by (simp add: Count.simps)
  next
    case (Some i)
    from "1.prems" have pos: "0 < length substr" by simp
    from Index_bound [OF Some] have le: "i + length substr \<le> length s" .
    from "1.IH" [OF "1.prems" Some "1.prems"]
    have "Count (drop (i + length substr) s) substr \<le> length s - (i + length substr)"
      by simp
    with pos le have "Suc (Count (drop (i + length substr) s) substr) \<le> length s"
      by linarith
    with Some "1.prems" show ?thesis by (simp add: Count.simps)
  qed
qed

lemma Split_splitLoop: "sep \<noteq> [] \<Longrightarrow> Split s sep = splitLoop (Count s sep) s sep"
  using Count_le_length [of sep s] by (simp add: Split_def genSplit_def Let_def)

lemma Split_rec:
  assumes "sep \<noteq> []"
  shows "Split s sep =
    (case Index s sep of
       None \<Rightarrow> [s]
     | Some m \<Rightarrow> take m s # Split (drop (m + length sep) s) sep)"
proof (cases "Index s sep")
  case None
  with assms show ?thesis by (simp add: Split_splitLoop Count.simps [of s])
next
  case (Some m)
  with assms show ?thesis by (simp add: Split_splitLoop Count.simps [of s])
qed

lemma HasPrefix_comma_space:
  "HasPrefix s '', '' = (\<exists>t. s = CHR '','' # CHR '' '' # t)"
proof -
  have "HasPrefix s '', '' = (take (Suc (Suc 0)) s = '', '')" by (simp add: HasPrefix_def)
  also have "\<dots> = (\<exists>t. s = CHR '','' # CHR '' '' # t)"
    by (cases s; cases "tl s") auto
  finally show ?thesis .
qed

lemma Index_at_delimiter:
  "Index a '', '' = None \<Longrightarrow> Index (a @ '', '' @ rest) '', '' = Some (length a)"
proof (induction a)
  case Nil
  show ?case by (simp add: HasPrefix_comma_space)
next
  case (Cons c cs)
  from Cons.prems have np: "\<not> HasPrefix (c # cs) '', ''" and tl: "Index cs '', '' = None"
    by (auto split: if_splits)
  have "\<not> HasPrefix (c # cs @ '', '' @ rest) '', ''"
    using np by (cases cs) (auto simp: HasPrefix_comma_space)
  with Cons.IH [OF tl] show ?case by simp
qed

lemma Split_at_delimiter:
  assumes "Index a '', '' = None"
  shows "Split (a @ '', '' @ rest) '', '' = a # Split rest '', ''"
proof -
  have "Split (a @ '', '' @ rest) '', '' =
      (case Index (a @ '', '' @ rest) '', '' of
         None \<Rightarrow> [a @ '', '' @ rest]
       | Some m \<Rightarrow> take m (a @ '', '' @ rest)
           # Split (drop (m + length '', '') (a @ '', '' @ rest)) '', '')"
    by (rule Split_rec) simp
  also have "\<dots> = take (length a) (a @ '', '' @ rest)
      # Split (drop (length a + length '', '') (a @ '', '' @ rest)) '', ''"
    by (simp only: Index_at_delimiter [OF assms] option.case)
  also have "\<dots> = a # Split rest '', ''"
    by simp
  finally show ?thesis .
qed

lemma Split_no_delimiter: "Index s '', '' = None \<Longrightarrow> Split s '', '' = [s]"
  by (subst Split_rec) simp_all

lemma Split_delimiter_length:
  "Index s '', '' = Some m \<Longrightarrow> 2 \<le> length (Split s '', '')"
proof -
  assume ix: "Index s '', '' = Some m"
  have "Split (drop (m + 2) s) '', '' \<noteq> []"
    by (subst Split_rec) (simp_all split: option.split)
  then have "1 \<le> length (Split (drop (m + 2) s) '', '')"
    by (cases "Split (drop (m + 2) s) '', ''") simp_all
  moreover have "Split s '', '' = take m s # Split (drop (m + 2) s) '', ''"
    by (subst Split_rec) (simp_all add: ix)
  ultimately show ?thesis by simp
qed

lemma xor_eq_0_byte: "(a XOR b = 0) = (a = (b :: byte))"
proof
  assume "a XOR b = 0"
  then have "(a XOR b) XOR b = b" by simp
  then show "a = b" by (simp add: xor.assoc)
qed simp

lemma ConstantTimeByteEq_iff: "ConstantTimeByteEq x y = (if x = y then 1 else 0)"
proof (cases "x = y")
  case True
  then show ?thesis by (simp add: ConstantTimeByteEq_def drop_bit_eq_div unat_div)
next
  case False
  define z where "z = x XOR y"
  from False have nz: "z \<noteq> 0" by (simp add: z_def xor_eq_0_byte)
  have "unat z < 2 ^ LENGTH(8)" by (rule unsigned_less)
  then have lt: "unat z < 256" by simp
  have u: "unat (ucast z :: 32 word) = unat z"
    using lt by (simp add: unsigned_ucast_eq take_bit_nat_eq_self)
  have "(ucast z :: 32 word) \<noteq> 0"
    using u nz by (metis unat_0_iff)
  then have "unat ((ucast z :: 32 word) - 1) = unat z - 1"
    using u by (simp add: unat_minus_one)
  then have "unat (drop_bit 31 ((ucast z :: 32 word) - 1)) = 0"
    using lt by (simp add: unat_drop_bit_eq drop_bit_eq_div unat_div)
  with False show ?thesis by (simp add: ConstantTimeByteEq_def z_def)
qed

lemma fold_or_eq_0:
  "(fold (\<lambda>(a, b) v. v OR (a XOR b)) ps (v0 :: byte) = 0) = (v0 = 0 \<and> (\<forall>(a, b) \<in> set ps. a = b))"
  by (induction ps arbitrary: v0) (auto simp: or_eq_0_iff xor_eq_0_byte)

lemma ConstantTimeCompare_iff: "(ConstantTimeCompare x y = Suc 0) = (x = y)"
  by (auto simp: ConstantTimeCompare_def ConstantTimeByteEq_iff fold_or_eq_0 list_eq_iff_zip_eq)

lemma hmac_Equal_iff: "hmac_Equal mac1 mac2 = (mac1 = mac2)"
  by (simp add: hmac_Equal_def ConstantTimeCompare_iff)

lemma w_fold_Write: "w (fold (\<lambda>p impl. Write impl p) chunks impl) = w impl @ concat chunks"
  by (induction chunks arbitrary: impl) (simp_all add: Write_def)

lemma verify_fold_Write: "verify (fold (\<lambda>p impl. Write impl p) chunks impl) = verify impl"
  by (induction chunks arbitrary: impl) (simp_all add: Write_def)

section \<open>Facts about Verify\<close>

lemma selectParams_Cons:
  "selectParams d ks (p # ps) =
     (case entryOf d p of
        None \<Rightarrow> Inl malformedSignatureError
      | Some (sigID, candidate) \<Rightarrow>
          (case ks (keyID candidate) of
             Some h \<Rightarrow> Inr (Some (sigID, candidate))
           | None \<Rightarrow> selectParams d ks ps))"
  by (simp add: entryOf_def split: list.splits option.splits)

lemma selectParams_Inl: "selectParams d ks ps = Inl e \<Longrightarrow> e = malformedSignatureError"
  by (induction ps) (auto simp: selectParams_Cons simp del: selectParams.simps(2) split: option.splits)

lemma selectParams_registered:
  "selectParams d ks ps = Inr (Some (sigID, params)) \<Longrightarrow> ks (keyID params) \<noteq> None"
  by (induction ps) (auto simp: selectParams_Cons simp del: selectParams.simps(2) split: option.splits)

lemma selectParams_skip:
  assumes "\<forall>p \<in> set pre. \<exists>sigID c. entryOf d p = Some (sigID, c) \<and> ks (keyID c) = None"
  shows "selectParams d ks (pre @ ps) = selectParams d ks ps"
  using assms
  by (induction pre) (auto simp: selectParams_Cons simp del: selectParams.simps(2))

lemma selectParams_find:
  assumes "\<forall>p \<in> set ps. entryOf d p \<noteq> None"
  shows "selectParams d ks ps =
    Inr (find (\<lambda>(sigID, params). keyID params \<in> dom ks) (List.map_filter (entryOf d) ps))"
  using assms
proof (induction ps)
  case Nil
  show ?case by (simp add: List.map_filter_simps)
next
  case (Cons p ps)
  from Cons.prems obtain sigID c where e: "entryOf d p = Some (sigID, c)"
    by auto
  from Cons.prems have rest: "\<forall>p \<in> set ps. entryOf d p \<noteq> None"
    by simp
  show ?case
  proof (cases "ks (keyID c)")
    case None
    with e Cons.IH [OF rest] show ?thesis
      by (simp add: selectParams_Cons List.map_filter_simps domIff del: selectParams.simps(2))
  next
    case (Some h)
    with e show ?thesis
      by (simp add: selectParams_Cons List.map_filter_simps domIff del: selectParams.simps(2))
  qed
qed

lemma selectParams_cong:
  assumes "parseSignatureInput d' = parseSignatureInput d"
    and "\<And>k. (ks' k = None) = (ks k = None)"
  shows "selectParams d' ks' ps = selectParams d ks ps"
proof (induction ps)
  case Nil
  show ?case by simp
next
  case (Cons p ps)
  have e: "entryOf d' p = entryOf d p"
    by (simp add: entryOf_def assms(1) cong: list.case_cong)
  show ?case
  proof (cases "entryOf d p")
    case None
    with e show ?thesis by (simp add: selectParams_Cons del: selectParams.simps(2))
  next
    case (Some sc)
    obtain sigID c where sc: "sc = (sigID, c)" by (cases sc)
    show ?thesis
    proof (cases "ks (keyID c)")
      case None
      with assms(2) [of "keyID c"] have "ks' (keyID c) = None" by simp
      with None Some sc e Cons.IH show ?thesis
        by (simp add: selectParams_Cons del: selectParams.simps(2))
    next
      case (Some h)
      with assms(2) [of "keyID c"] obtain h' where "ks' (keyID c) = Some h'" by auto
      with Some \<open>entryOf d p = Some sc\<close> sc e show ?thesis
        by (simp add: selectParams_Cons del: selectParams.simps(2))
    qed
  qed
qed

lemma findSignature_Inl: "findSignature sigID ss = Inl e \<Longrightarrow> e = malformedSignatureError"
  by (induction ss) (auto split: list.splits if_splits)

lemma findSignature_absent:
  assumes "\<forall>s \<in> set ss. \<forall>k val. SplitN s ''='' 2 = [k, val] \<longrightarrow> k \<noteq> sigID"
  shows "findSignature sigID ss = Inr [] \<or> findSignature sigID ss = Inl malformedSignatureError"
  using assms by (induction ss) (auto split: list.splits)

lemma findSignature_first:
  assumes "\<forall>q \<in> set pre. \<exists>k val. SplitN q ''='' 2 = [k, val] \<and> k \<noteq> sigID"
    and "SplitN s ''='' 2 = [sigID, raw]"
  shows "findSignature sigID (pre @ s # rest) = Inr (Trim raw '':'')"
  using assms by (induction pre) auto

lemma canonicalizeItems_Inl:
  assumes "canonicalizersNeverReturn d e"
  shows "canonicalizeItems d msg hs b \<noteq> Inl e"
  using assms
  by (induction hs arbitrary: b)
     (auto simp: canonicalizersNeverReturn_def split: sum.splits)

lemma Verify_absent:
  "sigHdr msg = [] \<or> paramHdr msg = [] \<Longrightarrow> Verify d v msg = Returns (Some notSignedError)"
  by (auto simp: Verify_def)

lemma Verify_mismatch:
  "sigHdr msg \<noteq> [] \<Longrightarrow> paramHdr msg \<noteq> [] \<Longrightarrow> length (sigParts msg) \<noteq> length (paramParts msg)
   \<Longrightarrow> Verify d v msg = Returns (Some malformedSignatureError)"
  by (simp add: Verify_def)

lemma Verify_select:
  "sigHdr msg \<noteq> [] \<Longrightarrow> paramHdr msg \<noteq> [] \<Longrightarrow> length (sigParts msg) = length (paramParts msg)
   \<Longrightarrow> Verify d v msg =
      (case selectParams d (keys v) (paramParts msg) of
         Inl err \<Rightarrow> Returns (Some err)
       | Inr None \<Rightarrow> Returns (Some unknownKeyError)
       | Inr (Some (sigID, params)) \<Rightarrow> verifySelected d v msg sigID params)"
  by (simp add: Verify_def)

lemma verifyBytes_cases:
  "verifyBytes d msg params ver sig =
     (case canonicalizeItems d msg (items params) [] of
        Inl err \<Rightarrow> Returns (Some err)
      | Inr b \<Rightarrow>
          (case callVerify (Write (Write (verifier ver ()) b) (canonicalizeSignatureParams d params)) sig of
             Some err \<Rightarrow> Returns (Some invalidSignatureError)
           | None \<Rightarrow>
               (case expires params of
                  None \<Rightarrow> Returns None
                | Some e \<Rightarrow> if After e (Now d) then Returns (Some signatureExpiredError)
                            else Returns None)))"
  by (simp add: verifyBytes_def Let_def split: sum.splits option.splits)

lemma verifyBytes_error:
  assumes "verifyBytes d msg params ver sig = Returns (Some e)"
    and "canonicalizersNeverReturn d e"
  shows "e = invalidSignatureError \<or> e = signatureExpiredError"
proof (cases "canonicalizeItems d msg (items params) []")
  case (Inl err)
  with assms(1) have "err = e" by (simp add: verifyBytes_cases)
  with Inl canonicalizeItems_Inl [OF assms(2)] show ?thesis by blast
next
  case (Inr b)
  with assms(1) show ?thesis
    by (auto simp: verifyBytes_cases split: option.splits if_splits)
qed

lemma verifySelected_found:
  assumes "findSignature sigID (sigParts msg) = Inr signature" and "signature \<noteq> []"
    and "keys v (keyID params) = Some ver"
  shows "verifySelected d v msg sigID params =
    (if verHolder.alg ver \<noteq> [] \<and> signatureParams.alg params \<noteq> []
        \<and> verHolder.alg ver \<noteq> signatureParams.alg params
     then Returns (Some algMismatchError)
     else (case DecodeString d signature of
             None \<Rightarrow> Returns (Some malformedSignatureError)
           | Some sig \<Rightarrow> verifyBytes d msg params ver sig))"
  using assms by (simp add: verifySelected_def)

lemma verifySelected_error:
  assumes "verifySelected d v msg sigID params = Returns (Some e)"
    and "canonicalizersNeverReturn d e"
  shows "e = malformedSignatureError \<or> e = algMismatchError
       \<or> e = invalidSignatureError \<or> e = signatureExpiredError"
proof (cases "findSignature sigID (sigParts msg)")
  case (Inl err)
  with assms(1) findSignature_Inl [OF Inl] show ?thesis
    by (simp add: verifySelected_def)
next
  case (Inr signature)
  show ?thesis
  proof (cases "keys v (keyID params)")
    case None
    with Inr assms(1) show ?thesis
      by (auto simp: verifySelected_def split: if_splits option.splits)
  next
    case (Some ver)
    show ?thesis
    proof (cases "DecodeString d signature")
      case None
      with Inr Some assms(1) show ?thesis
        by (auto simp: verifySelected_def split: if_splits)
    next
      case (Some sig)
      with Inr \<open>keys v (keyID params) = Some ver\<close> assms(1)
      have "e = malformedSignatureError \<or> e = algMismatchError
          \<or> verifyBytes d msg params ver sig = Returns (Some e)"
        by (auto simp: verifySelected_def split: if_splits)
      with verifyBytes_error [OF _ assms(2)] show ?thesis by blast
    qed
  qed
qed

lemma Verify_selected:
  assumes ret: "Verify d v msg = Returns (Some e)"
    and present: "sigHdr msg \<noteq> []" "paramHdr msg \<noteq> []"
    and e: "e \<noteq> malformedSignatureError" "e \<noteq> unknownKeyError"
  shows "\<exists>sigID params.
      length (sigParts msg) = length (paramParts msg)
      \<and> selectParams d (keys v) (paramParts msg) = Inr (Some (sigID, params))
      \<and> verifySelected d v msg sigID params = Returns (Some e)"
proof (cases "length (sigParts msg) = length (paramParts msg)")
  case False
  with present ret e show ?thesis by (simp add: Verify_mismatch)
next
  case True
  note sel = Verify_select [OF present True, of d v]
  show ?thesis
  proof (cases "selectParams d (keys v) (paramParts msg)")
    case (Inl err)
    with sel ret e selectParams_Inl [OF Inl] show ?thesis by simp
  next
    case (Inr r)
    show ?thesis
    proof (cases r)
      case None
      with Inr sel ret e show ?thesis by simp
    next
      case (Some sp)
      obtain sigID params where sp: "sp = (sigID, params)" by (cases sp)
      from Inr Some sp sel ret
      have "verifySelected d v msg sigID params = Returns (Some e)" by simp
      with True Inr Some sp show ?thesis by blast
    qed
  qed
qed

lemma Verify_reached:
  assumes "reachesVerify d v msg sigID params signature ver sig b"
  shows "Verify d v msg =
    (case callVerify (fedInstance d params ver b) sig of
       Some err \<Rightarrow> Returns (Some invalidSignatureError)
     | None \<Rightarrow>
         (case expires params of
            None \<Rightarrow> Returns None
          | Some e \<Rightarrow> if After e (Now d) then Returns (Some signatureExpiredError)
                      else Returns None))"
proof -
  from assms have present: "sigHdr msg \<noteq> []" "paramHdr msg \<noteq> []"
    and len: "length (sigParts msg) = length (paramParts msg)"
    and sel: "selectParams d (keys v) (paramParts msg) = Inr (Some (sigID, params))"
    and found: "findSignature sigID (sigParts msg) = Inr signature" "signature \<noteq> []"
    and ver: "keys v (keyID params) = Some ver"
    and ok: "\<not> (verHolder.alg ver \<noteq> [] \<and> signatureParams.alg params \<noteq> []
             \<and> verHolder.alg ver \<noteq> signatureParams.alg params)"
    and dec: "DecodeString d signature = Some sig"
    and can: "canonicalizeItems d msg (items params) [] = Inr b"
    by (simp_all add: reachesVerify_def)
  have "Verify d v msg = verifySelected d v msg sigID params"
    by (simp add: Verify_select [OF present len] sel)
  also have "\<dots> = verifyBytes d msg params ver sig"
    unfolding verifySelected_found [OF found ver] using ok dec by auto
  also have "\<dots> = (case callVerify (fedInstance d params ver b) sig of
       Some err \<Rightarrow> Returns (Some invalidSignatureError)
     | None \<Rightarrow>
         (case expires params of
            None \<Rightarrow> Returns None
          | Some e \<Rightarrow> if After e (Now d) then Returns (Some signatureExpiredError)
                      else Returns None))"
    by (simp add: verifyBytes_cases can fedInstance_def)
  finally show ?thesis .
qed

lemma verifyBytes_expired:
  assumes "verifyBytes d msg params ver sig = Returns (Some signatureExpiredError)"
    and "canonicalizersNeverReturn d signatureExpiredError"
  shows "\<exists>b. canonicalizeItems d msg (items params) [] = Inr b
    \<and> callVerify (fedInstance d params ver b) sig = None"
proof (cases "canonicalizeItems d msg (items params) []")
  case (Inl err)
  with assms(1) have "err = signatureExpiredError" by (simp add: verifyBytes_cases)
  with Inl canonicalizeItems_Inl [OF assms(2)] show ?thesis by blast
next
  case (Inr b)
  with assms(1) show ?thesis
    by (auto simp: verifyBytes_cases fedInstance_def split: option.splits if_splits)
qed

lemma verifySelected_expired:
  assumes "verifySelected d v msg sigID params = Returns (Some signatureExpiredError)"
    and "canonicalizersNeverReturn d signatureExpiredError"
  shows "\<exists>signature ver sig b.
      findSignature sigID (sigParts msg) = Inr signature \<and> signature \<noteq> []
      \<and> keys v (keyID params) = Some ver
      \<and> \<not> (verHolder.alg ver \<noteq> [] \<and> signatureParams.alg params \<noteq> []
             \<and> verHolder.alg ver \<noteq> signatureParams.alg params)
      \<and> DecodeString d signature = Some sig
      \<and> canonicalizeItems d msg (items params) [] = Inr b
      \<and> callVerify (fedInstance d params ver b) sig = None"
proof (cases "findSignature sigID (sigParts msg)")
  case (Inl err)
  with assms(1) findSignature_Inl [OF Inl] show ?thesis
    by (simp add: verifySelected_def)
next
  case (Inr signature)
  with assms(1) have ne: "signature \<noteq> []"
    by (auto simp: verifySelected_def split: if_splits)
  show ?thesis
  proof (cases "keys v (keyID params)")
    case None
    with Inr ne assms(1) show ?thesis
      by (auto simp: verifySelected_def split: option.splits)
  next
    case (Some ver)
    note found = verifySelected_found [OF Inr ne Some, of d]
    from assms(1) have ok: "\<not> (verHolder.alg ver \<noteq> [] \<and> signatureParams.alg params \<noteq> []
             \<and> verHolder.alg ver \<noteq> signatureParams.alg params)"
      unfolding found by (auto split: if_splits)
    show ?thesis
    proof (cases "DecodeString d signature")
      case None
      with assms(1) ok show ?thesis unfolding found by auto
    next
      case (Some sig)
      with assms(1) ok have "verifyBytes d msg params ver sig = Returns (Some signatureExpiredError)"
        unfolding found by auto
      from verifyBytes_expired [OF this assms(2)] Inr ne \<open>keys v (keyID params) = Some ver\<close> ok Some
      show ?thesis by blast
    qed
  qed
qed

lemma verifySelected_nowFunc:
  "verifySelected d (v\<lparr>nowFunc := f\<rparr>) msg sigID params = verifySelected d v msg sigID params"
  by (simp add: verifySelected_def cong: sum.case_cong if_cong)

lemma Verify_nowFunc: "Verify d (v\<lparr>nowFunc := f\<rparr>) msg = Verify d v msg"
  by (simp add: Verify_def verifySelected_nowFunc cong: sum.case_cong option.case_cong if_cong)

lemma verifyBytes_primitive:
  "verifyBytes d msg params ver sig =
     (case canonicalizeItems d msg (items params) [] of
        Inl err \<Rightarrow> Returns (Some err)
      | Inr b \<Rightarrow>
          (case verify (verifier ver ())
                  (w (verifier ver ()) @ b @ canonicalizeSignatureParams d params) sig of
             Some err \<Rightarrow> Returns (Some invalidSignatureError)
           | None \<Rightarrow>
               (case expires params of
                  None \<Rightarrow> Returns None
                | Some e \<Rightarrow> if After e (Now d) then Returns (Some signatureExpiredError)
                            else Returns None)))"
  by (simp add: verifyBytes_cases callVerify_def Write_def cong: sum.case_cong)

lemma canonicalizeItems_parse:
  "canonicalizeItems (d\<lparr>parseSignatureInput := f\<rparr>) msg hs b = canonicalizeItems d msg hs b"
  by (induction hs arbitrary: b) (simp_all split: sum.splits)

lemma verifyBytes_parse:
  "verifyBytes (d\<lparr>parseSignatureInput := f\<rparr>) msg params ver sig = verifyBytes d msg params ver sig"
  by (simp add: verifyBytes_primitive canonicalizeItems_parse
      cong: sum.case_cong option.case_cong if_cong)

lemma verifySelected_parse:
  "verifySelected (d\<lparr>parseSignatureInput := f\<rparr>) v msg sigID params
   = verifySelected d v msg sigID params"
  by (simp add: verifySelected_def verifyBytes_parse
      cong: sum.case_cong option.case_cong if_cong)

lemma verifySelected_first:
  assumes "sigParts msg = pre @ s # rest"
    and "\<forall>q \<in> set pre. \<exists>k val. SplitN q ''='' 2 = [k, val] \<and> k \<noteq> sigID"
    and "SplitN s ''='' 2 = [sigID, raw]"
  shows "verifySelected d v msg sigID params =
    (if Trim raw '':'' = [] then Returns (Some malformedSignatureError)
     else (case keys v (keyID params) of
             None \<Rightarrow>
               (case DecodeString d (Trim raw '':'') of
                  None \<Rightarrow> Returns (Some malformedSignatureError)
                | Some sig \<Rightarrow> Panics)
           | Some ver \<Rightarrow>
               if verHolder.alg ver \<noteq> [] \<and> signatureParams.alg params \<noteq> []
                  \<and> verHolder.alg ver \<noteq> signatureParams.alg params
               then Returns (Some algMismatchError)
               else (case DecodeString d (Trim raw '':'') of
                       None \<Rightarrow> Returns (Some malformedSignatureError)
                     | Some sig \<Rightarrow> verifyBytes d msg params ver sig)))"
proof -
  have "findSignature sigID (sigParts msg) = Inr (Trim raw '':'')"
    unfolding assms(1) by (rule findSignature_first [OF assms(2,3)])
  then show ?thesis by (simp add: verifySelected_def)
qed

lemma verifySelected_primitive:
  assumes "keys v (keyID params) = Some ver"
  shows "verifySelected d v msg sigID params =
    (case findSignature sigID (sigParts msg) of
       Inl err \<Rightarrow> Returns (Some err)
     | Inr signature \<Rightarrow>
         if signature = [] then Returns (Some malformedSignatureError)
         else if verHolder.alg ver \<noteq> [] \<and> signatureParams.alg params \<noteq> []
                 \<and> verHolder.alg ver \<noteq> signatureParams.alg params
         then Returns (Some algMismatchError)
         else (case DecodeString d signature of
                 None \<Rightarrow> Returns (Some malformedSignatureError)
               | Some sig \<Rightarrow>
                   (case canonicalizeItems d msg (items params) [] of
                      Inl err \<Rightarrow> Returns (Some err)
                    | Inr b \<Rightarrow>
                        (case verify (verifier ver ())
                                (w (verifier ver ()) @ b
                                   @ canonicalizeSignatureParams d params) sig of
                           Some err \<Rightarrow> Returns (Some invalidSignatureError)
                         | None \<Rightarrow>
                             (case expires params of
                                None \<Rightarrow> Returns None
                              | Some e \<Rightarrow>
                                  if After e (Now d)
                                  then Returns (Some signatureExpiredError)
                                  else Returns None)))))"
  using assms
  by (simp add: verifySelected_def verifyBytes_primitive
      cong: sum.case_cong option.case_cong if_cong)

lemma entryOf_parse:
  assumes "\<forall>k blob. SplitN q ''='' 2 = [k, blob] \<longrightarrow> parse' blob = parseSignatureInput d blob"
  shows "entryOf (d\<lparr>parseSignatureInput := parse'\<rparr>) q = entryOf d q"
  using assms by (auto simp: entryOf_def split: list.splits)

section \<open>Facts about the sample\<close>

lemma sample_sigHdr: "sigHdr (sampleMessage a b) = a"
  by (simp add: sigHdr_def Get_def sampleMessage_def)

lemma sample_paramHdr: "paramHdr (sampleMessage a b) = b"
  by (simp add: paramHdr_def Get_def sampleMessage_def)

lemma sample_keys:
  "keys sampleVerifier k = (if k = ''key1'' then Some (verifyHmacSha256 sampleMac [7]) else None)"
  by (simp add: sampleVerifier_def)

lemma sample_dom: "dom (keys sampleVerifier) = {''key1''}"
  by (auto simp: sample_keys dom_def)

lemma sample_canonicalizers:
  "e \<noteq> malformedSignatureError \<Longrightarrow> canonicalizersNeverReturn sampleDeps e"
  by (auto simp: canonicalizersNeverReturn_def sampleDeps_def split: option.splits)

lemma sample_entryOf_key1:
  "entryOf sampleDeps ''sig2=(Date);keyid=key1''
   = Some (''sig2'', \<lparr>items = [''Date''], keyID = ''key1'', alg = [], expires = None\<rparr>)"
  by code_simp

lemma sample_entryOf_sig1:
  "entryOf sampleDeps ''sig1=(Date);keyid=key1''
   = Some (''sig1'', \<lparr>items = [''Date''], keyID = ''key1'', alg = [], expires = None\<rparr>)"
  by code_simp

lemma sample_entryOf_key2:
  "entryOf sampleDeps ''sig1=(Date);keyid=key2''
   = Some (''sig1'', \<lparr>items = [''Date''], keyID = ''key2'', alg = [], expires = None\<rparr>)"
  by code_simp

lemma sample_entryOf_garbage: "entryOf sampleDeps ''sig2=garbage'' = None"
  by code_simp

lemma sample_select_key1:
  "selectParams sampleDeps (keys sampleVerifier) [''sig1=(Date);keyid=key1'']
   = Inr (Some (''sig1'', \<lparr>items = [''Date''], keyID = ''key1'', alg = [], expires = None\<rparr>))"
  by code_simp

lemma sample_select_rsa:
  "selectParams sampleDeps (keys sampleVerifier) [''sig1=(Date);keyid=key1;alg=rsa-pss-sha512'']
   = Inr (Some (''sig1'', \<lparr>items = [''Date''], keyID = ''key1'', alg = ''rsa-pss-sha512'',
                           expires = None\<rparr>))"
  by code_simp

lemma sample_select_expires:
  "selectParams sampleDeps (keys sampleVerifier) [''sig1=(Date);keyid=key1;expires=100'']
   = Inr (Some (''sig1'', \<lparr>items = [''Date''], keyID = ''key1'', alg = [], expires = Some 100\<rparr>))"
  by code_simp

lemma sample_findSignature: "findSignature ''sig1'' [''sig1=:BQ==:''] = Inr ''BQ==''"
  by code_simp

lemma sample_findSignature_wrong: "findSignature ''sig1'' [''sig1=:AA==:''] = Inr ''AA==''"
  by code_simp

lemma sample_SplitN:
  "SplitN ''sig1=:!!!:'' ''='' 2 = [''sig1'', '':!!!:'']"
  "SplitN ''sig9=:BQ==:'' ''='' 2 = [''sig9'', '':BQ==:'']"
  "SplitN ''sig1=:BQ==:'' ''='' 2 = [''sig1'', '':BQ==:'']"
  by code_simp+

lemma sample_Trim: "Trim '':!!!:'' '':'' = ''!!!''" "Trim '':BQ==:'' '':'' = ''BQ==''"
  by code_simp+

lemma sample_Decode: "DecodeString sampleDeps ''!!!'' = None" "DecodeString sampleDeps ''BQ=='' = Some [5]"
  by code_simp+

lemma sample_Decode_wrong: "DecodeString sampleDeps ''AA=='' = Some [0]"
  by code_simp

lemma sample_canonicalizeItems:
  "canonicalizeItems sampleDeps (sampleMessage a b) [''Date''] [] = Inr [1]"
  by (simp add: sampleDeps_def sampleMessage_def)

lemma sample_fedInstance:
  "w (fedInstance sampleDeps params (verifyHmacSha256 sampleMac [7]) [1]) = [1, 3]"
  "verify (fedInstance sampleDeps params (verifyHmacSha256 sampleMac [7]) [1]) written sig
   = (if sig = sampleMac [7] written then None else Some invalidSignatureError)"
  by (simp_all add: fedInstance_def Write_def verifyHmacSha256_def sampleDeps_def hmac_Equal_iff)

lemma sample_callVerify:
  "callVerify (fedInstance sampleDeps params (verifyHmacSha256 sampleMac [7]) [1]) sig
   = (if sig = [5] then None else Some invalidSignatureError)"
proof -
  have "sampleMac [7] [1, 3] = [5]"
    by (simp add: sampleMac_def)
  then show ?thesis
    by (simp add: callVerify_def sample_fedInstance)
qed

lemma malformedAfterMatch_parts:
  "sigHdr malformedAfterMatch \<noteq> []" "paramHdr malformedAfterMatch \<noteq> []"
  "sigParts malformedAfterMatch = [''sig1=:BQ==:'', ''sig2=:BQ==:'']"
  "paramParts malformedAfterMatch = [''sig1=(Date);keyid=key1'', ''sig2=garbage'']"
proof -
  show "sigHdr malformedAfterMatch \<noteq> []" "paramHdr malformedAfterMatch \<noteq> []"
    by (simp_all add: malformedAfterMatch_def sample_sigHdr sample_paramHdr)
  show "sigParts malformedAfterMatch = [''sig1=:BQ==:'', ''sig2=:BQ==:'']"
    unfolding sigParts_def malformedAfterMatch_def sample_sigHdr by code_simp
  show "paramParts malformedAfterMatch = [''sig1=(Date);keyid=key1'', ''sig2=garbage'']"
    unfolding paramParts_def malformedAfterMatch_def sample_paramHdr by code_simp
qed

lemma wrongAlg_parts:
  "sigHdr wrongAlg \<noteq> []" "paramHdr wrongAlg \<noteq> []"
  "sigParts wrongAlg = [''sig1=:BQ==:'']"
  "paramParts wrongAlg = [''sig1=(Date);keyid=key1;alg=rsa-pss-sha512'']"
proof -
  show "sigHdr wrongAlg \<noteq> []" "paramHdr wrongAlg \<noteq> []"
    by (simp_all add: wrongAlg_def sample_sigHdr sample_paramHdr)
  show "sigParts wrongAlg = [''sig1=:BQ==:'']"
    unfolding sigParts_def wrongAlg_def sample_sigHdr by code_simp
  show "paramParts wrongAlg = [''sig1=(Date);keyid=key1;alg=rsa-pss-sha512'']"
    unfolding paramParts_def wrongAlg_def sample_paramHdr by code_simp
qed

lemma undecodable_parts:
  "sigHdr undecodable \<noteq> []" "paramHdr undecodable \<noteq> []"
  "sigParts undecodable = [''sig1=:!!!:'']"
  "paramParts undecodable = [''sig1=(Date);keyid=key1'']"
proof -
  show "sigHdr undecodable \<noteq> []" "paramHdr undecodable \<noteq> []"
    by (simp_all add: undecodable_def sample_sigHdr sample_paramHdr)
  show "sigParts undecodable = [''sig1=:!!!:'']"
    unfolding sigParts_def undecodable_def sample_sigHdr by code_simp
  show "paramParts undecodable = [''sig1=(Date);keyid=key1'']"
    unfolding paramParts_def undecodable_def sample_paramHdr by code_simp
qed

lemma otherId_parts:
  "sigHdr otherId \<noteq> []" "paramHdr otherId \<noteq> []"
  "sigParts otherId = [''sig9=:BQ==:'']"
  "paramParts otherId = [''sig1=(Date);keyid=key1'']"
proof -
  show "sigHdr otherId \<noteq> []" "paramHdr otherId \<noteq> []"
    by (simp_all add: otherId_def sample_sigHdr sample_paramHdr)
  show "sigParts otherId = [''sig9=:BQ==:'']"
    unfolding sigParts_def otherId_def sample_sigHdr by code_simp
  show "paramParts otherId = [''sig1=(Date);keyid=key1'']"
    unfolding paramParts_def otherId_def sample_paramHdr by code_simp
qed

lemma expires100_parts:
  "sigHdr expiredMessage \<noteq> []" "paramHdr expiredMessage \<noteq> []"
  "sigParts expiredMessage = [''sig1=:BQ==:'']"
  "paramParts expiredMessage = [''sig1=(Date);keyid=key1;expires=100'']"
  "sigHdr wrongSignature \<noteq> []" "paramHdr wrongSignature \<noteq> []"
  "sigParts wrongSignature = [''sig1=:AA==:'']"
  "paramParts wrongSignature = [''sig1=(Date);keyid=key1;expires=100'']"
proof -
  show "sigHdr expiredMessage \<noteq> []" "paramHdr expiredMessage \<noteq> []"
    "sigHdr wrongSignature \<noteq> []" "paramHdr wrongSignature \<noteq> []"
    by (simp_all add: expiredMessage_def wrongSignature_def sample_sigHdr sample_paramHdr)
  show "sigParts expiredMessage = [''sig1=:BQ==:'']"
    unfolding sigParts_def expiredMessage_def sample_sigHdr by code_simp
  show "paramParts expiredMessage = [''sig1=(Date);keyid=key1;expires=100'']"
    unfolding paramParts_def expiredMessage_def sample_paramHdr by code_simp
  show "sigParts wrongSignature = [''sig1=:AA==:'']"
    unfolding sigParts_def wrongSignature_def sample_sigHdr by code_simp
  show "paramParts wrongSignature = [''sig1=(Date);keyid=key1;expires=100'']"
    unfolding paramParts_def wrongSignature_def sample_paramHdr by code_simp
qed

lemma sample_reaches_expired:
  "reachesVerify sampleDeps sampleVerifier expiredMessage ''sig1''
     \<lparr>items = [''Date''], keyID = ''key1'', alg = [], expires = Some 100\<rparr>
     ''BQ=='' (verifyHmacSha256 sampleMac [7]) [5] [1]"
  unfolding reachesVerify_def expires100_parts
  by (simp add: sample_select_expires sample_findSignature sample_keys sample_Decode
      sample_canonicalizeItems expiredMessage_def sample_sigHdr sample_paramHdr
      del: selectParams.simps findSignature.simps canonicalizeItems.simps)

lemma sample_reaches_wrong:
  "reachesVerify sampleDeps sampleVerifier wrongSignature ''sig1''
     \<lparr>items = [''Date''], keyID = ''key1'', alg = [], expires = Some 100\<rparr>
     ''AA=='' (verifyHmacSha256 sampleMac [7]) [0] [1]"
  unfolding reachesVerify_def expires100_parts
  by (simp add: sample_select_expires sample_findSignature_wrong sample_keys sample_Decode_wrong
      sample_canonicalizeItems wrongSignature_def sample_sigHdr sample_paramHdr
      del: selectParams.simps findSignature.simps canonicalizeItems.simps)

lemma emptyValueWrongAlg_parts:
  "sigHdr emptyValueWrongAlg \<noteq> []" "paramHdr emptyValueWrongAlg \<noteq> []"
  "sigParts emptyValueWrongAlg = [''sig1=::'']"
  "paramParts emptyValueWrongAlg = [''sig1=(Date);keyid=key1;alg=rsa-pss-sha512'']"
proof -
  show "sigHdr emptyValueWrongAlg \<noteq> []" "paramHdr emptyValueWrongAlg \<noteq> []"
    by (simp_all add: emptyValueWrongAlg_def sample_sigHdr sample_paramHdr)
  show "sigParts emptyValueWrongAlg = [''sig1=::'']"
    unfolding sigParts_def emptyValueWrongAlg_def sample_sigHdr by code_simp
  show "paramParts emptyValueWrongAlg = [''sig1=(Date);keyid=key1;alg=rsa-pss-sha512'']"
    unfolding paramParts_def emptyValueWrongAlg_def sample_paramHdr by code_simp
qed

lemma sample_SplitN_empty: "SplitN ''sig1=::'' ''='' 2 = [''sig1'', ''::'']"
  by code_simp

lemma sample_Trim_empty: "Trim ''::'' '':'' = []"
  by code_simp

lemma threeEntries_parts:
  "sigHdr threeEntries \<noteq> []" "paramHdr threeEntries \<noteq> []"
  "sigParts threeEntries = [''sig1=:AA==:''] @ ''sig2=:BQ==:'' # [''sig3=:AA==:'']"
  "paramParts threeEntries = [''sig1=(Date);keyid=key2'', ''sig2=(Date);keyid=key1'',
      ''sig3=(Date);keyid=key1;alg=rsa-pss-sha512'']"
proof -
  show "sigHdr threeEntries \<noteq> []" "paramHdr threeEntries \<noteq> []"
    by (simp_all add: threeEntries_def sample_sigHdr sample_paramHdr)
  show "sigParts threeEntries = [''sig1=:AA==:''] @ ''sig2=:BQ==:'' # [''sig3=:AA==:'']"
    unfolding sigParts_def threeEntries_def sample_sigHdr by code_simp
  show "paramParts threeEntries = [''sig1=(Date);keyid=key2'', ''sig2=(Date);keyid=key1'',
      ''sig3=(Date);keyid=key1;alg=rsa-pss-sha512'']"
    unfolding paramParts_def threeEntries_def sample_paramHdr by code_simp
qed

lemma selectedSignatureWrong_parts:
  "sigHdr selectedSignatureWrong \<noteq> []" "paramHdr selectedSignatureWrong \<noteq> []"
  "sigParts selectedSignatureWrong = [''sig1=:BQ==:''] @ ''sig2=:AA==:'' # []"
  "paramParts selectedSignatureWrong = [''sig1=(Date);keyid=key2'', ''sig2=(Date);keyid=key1'']"
proof -
  show "sigHdr selectedSignatureWrong \<noteq> []" "paramHdr selectedSignatureWrong \<noteq> []"
    by (simp_all add: selectedSignatureWrong_def sample_sigHdr sample_paramHdr)
  show "sigParts selectedSignatureWrong = [''sig1=:BQ==:''] @ ''sig2=:AA==:'' # []"
    unfolding sigParts_def selectedSignatureWrong_def sample_sigHdr by code_simp
  show "paramParts selectedSignatureWrong
      = [''sig1=(Date);keyid=key2'', ''sig2=(Date);keyid=key1'']"
    unfolding paramParts_def selectedSignatureWrong_def sample_paramHdr by code_simp
qed

lemma unknownKeyOnly_parts:
  "sigHdr unknownKeyOnly \<noteq> []" "paramHdr unknownKeyOnly \<noteq> []"
  "sigParts unknownKeyOnly = [''sig1=:BQ==:'']"
  "paramParts unknownKeyOnly = [''sig1=(Date);keyid=key2'']"
proof -
  show "sigHdr unknownKeyOnly \<noteq> []" "paramHdr unknownKeyOnly \<noteq> []"
    by (simp_all add: unknownKeyOnly_def sample_sigHdr sample_paramHdr)
  show "sigParts unknownKeyOnly = [''sig1=:BQ==:'']"
    unfolding sigParts_def unknownKeyOnly_def sample_sigHdr by code_simp
  show "paramParts unknownKeyOnly = [''sig1=(Date);keyid=key2'']"
    unfolding paramParts_def unknownKeyOnly_def sample_paramHdr by code_simp
qed

lemma sample_entryOf_rsa:
  "entryOf sampleDeps ''sig3=(Date);keyid=key1;alg=rsa-pss-sha512''
   = Some (''sig3'', \<lparr>items = [''Date''], keyID = ''key1'', alg = ''rsa-pss-sha512'',
                      expires = None\<rparr>)"
  by code_simp

lemma sample_SplitN_more:
  "SplitN ''sig1=:AA==:'' ''='' 2 = [''sig1'', '':AA==:'']"
  "SplitN ''sig2=:BQ==:'' ''='' 2 = [''sig2'', '':BQ==:'']"
  "SplitN ''sig2=:AA==:'' ''='' 2 = [''sig2'', '':AA==:'']"
  by code_simp+

lemma sample_Trim_wrong: "Trim '':AA==:'' '':'' = ''AA==''"
  by code_simp

lemma sample_verify:
  "verify (verifier (verifyHmacSha256 sampleMac [7]) ())
     (w (verifier (verifyHmacSha256 sampleMac [7]) ()) @ [1]
        @ canonicalizeSignatureParams sampleDeps params) sig
   = (if sig = [5] then None else Some invalidSignatureError)"
proof -
  have "sampleMac [7] [1, 3] = [5]"
    by (simp add: sampleMac_def)
  then show ?thesis
    by (simp add: verifyHmacSha256_def sampleDeps_def hmac_Equal_iff)
qed

lemma sample_first_registered:
  "find (\<lambda>(sigID, params). keyID params \<in> dom (keys sampleVerifier))
     (List.map_filter (entryOf sampleDeps) (paramParts threeEntries))
   = Some (''sig2'', \<lparr>items = [''Date''], keyID = ''key1'', alg = [], expires = None\<rparr>)"
  "find (\<lambda>(sigID, params). keyID params \<in> dom (keys sampleVerifier))
     (List.map_filter (entryOf sampleDeps) (paramParts selectedSignatureWrong))
   = Some (''sig2'', \<lparr>items = [''Date''], keyID = ''key1'', alg = [], expires = None\<rparr>)"
  "find (\<lambda>(sigID, params). keyID params \<in> dom (keys sampleVerifier))
     (List.map_filter (entryOf sampleDeps) (paramParts unknownKeyOnly)) = None"
  unfolding threeEntries_parts selectedSignatureWrong_parts unknownKeyOnly_parts
  by (simp_all add: List.map_filter_simps sample_entryOf_key2 sample_entryOf_key1
      sample_entryOf_rsa sample_dom)

lemma sample_all_parse:
  "\<forall>p \<in> set (paramParts threeEntries). entryOf sampleDeps p \<noteq> None"
  "\<forall>p \<in> set (paramParts selectedSignatureWrong). entryOf sampleDeps p \<noteq> None"
  "\<forall>p \<in> set (paramParts unknownKeyOnly). entryOf sampleDeps p \<noteq> None"
  unfolding threeEntries_parts selectedSignatureWrong_parts unknownKeyOnly_parts
  by (simp_all add: sample_entryOf_key2 sample_entryOf_key1 sample_entryOf_rsa)

lemma sample_lenient_same:
  "\<forall>q \<in> set ([] @ [''sig1=(Date);keyid=key1'']). \<forall>k blob. SplitN q ''='' 2 = [k, blob]
      \<longrightarrow> lenientParse blob = parseSignatureInput sampleDeps blob"
proof -
  have "SplitN ''sig1=(Date);keyid=key1'' ''='' 2 = [''sig1'', ''(Date);keyid=key1'']"
    by code_simp
  moreover have "lenientParse ''(Date);keyid=key1''
      = parseSignatureInput sampleDeps ''(Date);keyid=key1''"
    by (simp add: lenientParse_def sampleDeps_def)
  ultimately show ?thesis by simp
qed

lemma sample_lenient_garbage:
  "parseSignatureInput (sampleDeps\<lparr>parseSignatureInput := lenientParse\<rparr>) ''garbage''
   = Some \<lparr>items = [''Date''], keyID = ''key1'', alg = [], expires = None\<rparr>"
  by (simp add: lenientParse_def)

section \<open>C1: a signature past its expiry\<close>

text \<open>
  C1 (not what the code does). A signature whose \<open>expires\<close> lies before now is to be
  refused with \<open>signatureExpiredError\<close>. Line 142 tests \<^verbatim>\<open>params.expires.After(time.Now())\<close>,
  which holds when \<open>expires\<close> lies after now. On the sample message every check before
  the expiry check passes and \<open>verify\<close> succeeds; \<open>expires\<close> is 100 and the clock reads
  200, so the signature expired in the past, and Verify returns nil.
\<close>

theorem Verify_past_expiry_accepted:
  "reachesVerify sampleDeps sampleVerifier expiredMessage ''sig1''
     \<lparr>items = [''Date''], keyID = ''key1'', alg = [], expires = Some 100\<rparr>
     ''BQ=='' (verifyHmacSha256 sampleMac [7]) [5] [1]
   \<and> callVerify (fedInstance sampleDeps
         \<lparr>items = [''Date''], keyID = ''key1'', alg = [], expires = Some 100\<rparr>
         (verifyHmacSha256 sampleMac [7]) [1]) [5] = None
   \<and> Now sampleDeps = 200
   \<and> After (Now sampleDeps) 100
   \<and> Verify sampleDeps sampleVerifier expiredMessage = Returns None
   \<and> Verify sampleDeps sampleVerifier expiredMessage \<noteq> Returns (Some signatureExpiredError)"
proof -
  have "Verify sampleDeps sampleVerifier expiredMessage = Returns None"
    unfolding expiredMessage_def by code_simp
  moreover have "Now sampleDeps = 200" by (simp add: sampleDeps_def)
  ultimately show ?thesis
    using sample_reaches_expired by (simp add: sample_callVerify After_def)
qed

section \<open>C2: absent headers and lists of different length\<close>

text \<open>
  C2, as the code has it. Verify returns \<open>notSignedError\<close> exactly when at least one of the
  headers Signature and Signature-Input is absent or empty (so also when exactly one of
  them is absent), provided no canonicalizer returns that error itself. When both are
  present and the two lists, split at \<^verbatim>\<open>", "\<close>, differ in length, Verify returns
  \<open>malformedSignatureError\<close>.
\<close>

theorem Verify_notSigned:
  assumes "canonicalizersNeverReturn d notSignedError"
  shows "(Verify d v msg = Returns (Some notSignedError)) = (sigHdr msg = [] \<or> paramHdr msg = [])
    \<and> (sigHdr msg \<noteq> [] \<and> paramHdr msg \<noteq> [] \<and> length (sigParts msg) \<noteq> length (paramParts msg)
        \<longrightarrow> Verify d v msg = Returns (Some malformedSignatureError))"
proof (intro conjI impI iffI)
  assume "sigHdr msg = [] \<or> paramHdr msg = []"
  then show "Verify d v msg = Returns (Some notSignedError)" by (rule Verify_absent)
next
  assume "sigHdr msg \<noteq> [] \<and> paramHdr msg \<noteq> [] \<and> length (sigParts msg) \<noteq> length (paramParts msg)"
  then show "Verify d v msg = Returns (Some malformedSignatureError)"
    by (simp add: Verify_mismatch)
next
  assume ns: "Verify d v msg = Returns (Some notSignedError)"
  show "sigHdr msg = [] \<or> paramHdr msg = []"
  proof (rule ccontr)
    assume "\<not> (sigHdr msg = [] \<or> paramHdr msg = [])"
    then have present: "sigHdr msg \<noteq> []" "paramHdr msg \<noteq> []" by simp_all
    from Verify_selected [OF ns present] obtain sigID params
      where "verifySelected d v msg sigID params = Returns (Some notSignedError)"
      by auto
    from verifySelected_error [OF this assms] show False by simp
  qed
qed

text \<open>
  An instance of C2: two signatures for one entry of Signature-Input.
\<close>

theorem Verify_notSigned_witness:
  "canonicalizersNeverReturn sampleDeps notSignedError
   \<and> sigHdr (sampleMessage ''sig1=:BQ==:, sig2=:BQ==:'' ''sig1=(Date);keyid=key1'') \<noteq> []
   \<and> paramHdr (sampleMessage ''sig1=:BQ==:, sig2=:BQ==:'' ''sig1=(Date);keyid=key1'') \<noteq> []
   \<and> length (sigParts (sampleMessage ''sig1=:BQ==:, sig2=:BQ==:'' ''sig1=(Date);keyid=key1'')) = 2
   \<and> length (paramParts (sampleMessage ''sig1=:BQ==:, sig2=:BQ==:'' ''sig1=(Date);keyid=key1'')) = 1
   \<and> Verify sampleDeps sampleVerifier
        (sampleMessage ''sig1=:BQ==:, sig2=:BQ==:'' ''sig1=(Date);keyid=key1'')
       = Returns (Some malformedSignatureError)
   \<and> Verify sampleDeps sampleVerifier
        (sampleMessage ''sig1=:BQ==:, sig2=:BQ==:'' ''sig1=(Date);keyid=key1'')
       \<noteq> Returns (Some notSignedError)"
proof -
  let ?m = "sampleMessage ''sig1=:BQ==:, sig2=:BQ==:'' ''sig1=(Date);keyid=key1''"
  have c: "canonicalizersNeverReturn sampleDeps notSignedError"
    by (simp add: sample_canonicalizers)
  have s: "sigHdr ?m \<noteq> []" and p: "paramHdr ?m \<noteq> []"
    by (simp_all add: sample_sigHdr sample_paramHdr)
  have ls: "length (sigParts ?m) = 2"
    unfolding sigParts_def sample_sigHdr by code_simp
  have lp: "length (paramParts ?m) = 1"
    unfolding paramParts_def sample_paramHdr by code_simp
  from Verify_notSigned [OF c, of sampleVerifier ?m] s p ls lp
  have "Verify sampleDeps sampleVerifier ?m = Returns (Some malformedSignatureError)"
    and "Verify sampleDeps sampleVerifier ?m \<noteq> Returns (Some notSignedError)"
    by simp_all
  with c s p ls lp show ?thesis by blast
qed

text \<open>
  C2 as the specification words it wants \<open>malformedSignatureError\<close> when exactly one header
  is absent. With Signature present and Signature-Input absent, Verify returns
  \<open>notSignedError\<close> (line 44).
\<close>

theorem Verify_one_header_absent:
  "sigHdr (sampleMessageNoInput ''sig1=:BQ==:'') \<noteq> []
   \<and> Header (sampleMessageNoInput ''sig1=:BQ==:'') ''Signature-Input'' = None
   \<and> paramHdr (sampleMessageNoInput ''sig1=:BQ==:'') = []
   \<and> Verify sampleDeps sampleVerifier (sampleMessageNoInput ''sig1=:BQ==:'')
       = Returns (Some notSignedError)
   \<and> Verify sampleDeps sampleVerifier (sampleMessageNoInput ''sig1=:BQ==:'')
       \<noteq> Returns (Some malformedSignatureError)"
  by (simp add: Verify_def sigHdr_def paramHdr_def Get_def sampleMessageNoInput_def)

section \<open>C3: the first entry with a registered key\<close>

text \<open>
  C3. When both headers are present, the lists have one length and every part of
  Signature-Input is well formed (it has a \<^verbatim>\<open>=\<close> and its blob parses), Verify takes the first
  entry, in header order, whose key id is in the registry; entries after it play no part,
  registered or not. When no entry's key id is in the registry, Verify returns
  \<open>unknownKeyError\<close>. Otherwise Verify verifies the signature of the entry taken: with the
  entry's id it looks the value up in the Signature header, with the registry entry \<open>ver\<close> of
  the entry's key it tests the labels and makes an instance, it decodes the value, writes the
  canonical bytes of the entry's covered items and parameters to the instance and calls the
  instance's \<open>verify\<close> on the decoded bytes; when that call fails, Verify returns
  \<open>invalidSignatureError\<close>. The last part says the same for a Signature header whose first part
  with the entry's id is \<open>s\<close>: the bytes verified are the decoded value of \<open>s\<close>.
\<close>

theorem Verify_first_registered:
  assumes present: "sigHdr msg \<noteq> []" "paramHdr msg \<noteq> []"
    and len: "length (sigParts msg) = length (paramParts msg)"
    and parse: "\<forall>p \<in> set (paramParts msg). entryOf d p \<noteq> None"
  shows "(find (\<lambda>(sigID, params). keyID params \<in> dom (keys v))
              (List.map_filter (entryOf d) (paramParts msg)) = None
          \<longrightarrow> Verify d v msg = Returns (Some unknownKeyError))
    \<and> (\<forall>sigID params.
          find (\<lambda>(sigID, params). keyID params \<in> dom (keys v))
               (List.map_filter (entryOf d) (paramParts msg)) = Some (sigID, params)
          \<longrightarrow> (\<exists>ver. keys v (keyID params) = Some ver
                \<and> Verify d v msg =
                    (case findSignature sigID (sigParts msg) of
                       Inl err \<Rightarrow> Returns (Some err)
                     | Inr signature \<Rightarrow>
                         if signature = [] then Returns (Some malformedSignatureError)
                         else if verHolder.alg ver \<noteq> [] \<and> signatureParams.alg params \<noteq> []
                                 \<and> verHolder.alg ver \<noteq> signatureParams.alg params
                         then Returns (Some algMismatchError)
                         else (case DecodeString d signature of
                                 None \<Rightarrow> Returns (Some malformedSignatureError)
                               | Some sig \<Rightarrow>
                                   (case canonicalizeItems d msg (items params) [] of
                                      Inl err \<Rightarrow> Returns (Some err)
                                    | Inr b \<Rightarrow>
                                        (case verify (verifier ver ())
                                                (w (verifier ver ()) @ b
                                                   @ canonicalizeSignatureParams d params) sig of
                                           Some err \<Rightarrow> Returns (Some invalidSignatureError)
                                         | None \<Rightarrow>
                                             (case expires params of
                                                None \<Rightarrow> Returns None
                                              | Some e \<Rightarrow>
                                                  if After e (Now d)
                                                  then Returns (Some signatureExpiredError)
                                                  else Returns None)))))))
    \<and> (\<forall>sigID params pre s rest raw ver sig b.
          find (\<lambda>(sigID, params). keyID params \<in> dom (keys v))
               (List.map_filter (entryOf d) (paramParts msg)) = Some (sigID, params)
          \<and> sigParts msg = pre @ s # rest
          \<and> (\<forall>q \<in> set pre. \<exists>k val. SplitN q ''='' 2 = [k, val] \<and> k \<noteq> sigID)
          \<and> SplitN s ''='' 2 = [sigID, raw]
          \<and> Trim raw '':'' \<noteq> []
          \<and> keys v (keyID params) = Some ver
          \<and> \<not> (verHolder.alg ver \<noteq> [] \<and> signatureParams.alg params \<noteq> []
                 \<and> verHolder.alg ver \<noteq> signatureParams.alg params)
          \<and> DecodeString d (Trim raw '':'') = Some sig
          \<and> canonicalizeItems d msg (items params) [] = Inr b
          \<longrightarrow> Verify d v msg =
                (case verify (verifier ver ())
                        (w (verifier ver ()) @ b @ canonicalizeSignatureParams d params) sig of
                   Some err \<Rightarrow> Returns (Some invalidSignatureError)
                 | None \<Rightarrow>
                     (case expires params of
                        None \<Rightarrow> Returns None
                      | Some e \<Rightarrow>
                          if After e (Now d) then Returns (Some signatureExpiredError)
                          else Returns None)))"
proof -
  let ?first = "find (\<lambda>(sigID, params). keyID params \<in> dom (keys v))
      (List.map_filter (entryOf d) (paramParts msg))"
  have V: "Verify d v msg =
      (case ?first of
         None \<Rightarrow> Returns (Some unknownKeyError)
       | Some (sigID, params) \<Rightarrow> verifySelected d v msg sigID params)"
    unfolding Verify_select [OF present len] selectParams_find [OF parse] by simp
  have none: "Verify d v msg = Returns (Some unknownKeyError)" if "?first = None"
    using that by (simp add: V)
  have registered: "\<exists>ver. keys v (keyID params) = Some ver"
    and selected: "Verify d v msg = verifySelected d v msg sigID params"
    if "?first = Some (sigID, params)" for sigID params
  proof -
    from that have "keyID params \<in> dom (keys v)"
      by (auto dest: find_Some_iff [THEN iffD1])
    then show "\<exists>ver. keys v (keyID params) = Some ver" by auto
    from that show "Verify d v msg = verifySelected d v msg sigID params"
      by (simp add: V)
  qed
  have whole: "\<exists>ver. keys v (keyID params) = Some ver
      \<and> Verify d v msg =
          (case findSignature sigID (sigParts msg) of
             Inl err \<Rightarrow> Returns (Some err)
           | Inr signature \<Rightarrow>
               if signature = [] then Returns (Some malformedSignatureError)
               else if verHolder.alg ver \<noteq> [] \<and> signatureParams.alg params \<noteq> []
                       \<and> verHolder.alg ver \<noteq> signatureParams.alg params
               then Returns (Some algMismatchError)
               else (case DecodeString d signature of
                       None \<Rightarrow> Returns (Some malformedSignatureError)
                     | Some sig \<Rightarrow>
                         (case canonicalizeItems d msg (items params) [] of
                            Inl err \<Rightarrow> Returns (Some err)
                          | Inr b \<Rightarrow>
                              (case verify (verifier ver ())
                                      (w (verifier ver ()) @ b
                                         @ canonicalizeSignatureParams d params) sig of
                                 Some err \<Rightarrow> Returns (Some invalidSignatureError)
                               | None \<Rightarrow>
                                   (case expires params of
                                      None \<Rightarrow> Returns None
                                    | Some e \<Rightarrow>
                                        if After e (Now d)
                                        then Returns (Some signatureExpiredError)
                                        else Returns None)))))"
    if f: "?first = Some (sigID, params)" for sigID params
  proof -
    from registered [OF f] obtain ver where ver: "keys v (keyID params) = Some ver" ..
    from ver selected [OF f] verifySelected_primitive [OF ver, of d msg sigID]
    show ?thesis by (intro exI [of _ ver] conjI) simp_all
  qed
  have verified: "Verify d v msg =
        (case verify (verifier ver ())
                (w (verifier ver ()) @ b @ canonicalizeSignatureParams d params) sig of
           Some err \<Rightarrow> Returns (Some invalidSignatureError)
         | None \<Rightarrow>
             (case expires params of
                None \<Rightarrow> Returns None
              | Some e \<Rightarrow>
                  if After e (Now d) then Returns (Some signatureExpiredError)
                  else Returns None))"
    if h: "?first = Some (sigID, params)
          \<and> sigParts msg = pre @ s # rest
          \<and> (\<forall>q \<in> set pre. \<exists>k val. SplitN q ''='' 2 = [k, val] \<and> k \<noteq> sigID)
          \<and> SplitN s ''='' 2 = [sigID, raw]
          \<and> Trim raw '':'' \<noteq> []
          \<and> keys v (keyID params) = Some ver
          \<and> \<not> (verHolder.alg ver \<noteq> [] \<and> signatureParams.alg params \<noteq> []
                 \<and> verHolder.alg ver \<noteq> signatureParams.alg params)
          \<and> DecodeString d (Trim raw '':'') = Some sig
          \<and> canonicalizeItems d msg (items params) [] = Inr b"
    for sigID params pre s rest raw ver sig b
  proof -
    from h have f: "?first = Some (sigID, params)" by (rule conjunct1)
    from h have p: "sigParts msg = pre @ s # rest"
      "\<forall>q \<in> set pre. \<exists>k val. SplitN q ''='' 2 = [k, val] \<and> k \<noteq> sigID"
      "SplitN s ''='' 2 = [sigID, raw]"
      by simp_all
    from h have rest: "Trim raw '':'' \<noteq> []" "keys v (keyID params) = Some ver"
      "\<not> (verHolder.alg ver \<noteq> [] \<and> signatureParams.alg params \<noteq> []
           \<and> verHolder.alg ver \<noteq> signatureParams.alg params)"
      "DecodeString d (Trim raw '':'') = Some sig"
      "canonicalizeItems d msg (items params) [] = Inr b"
      by simp_all
    have "Verify d v msg = verifyBytes d msg params ver sig"
      unfolding selected [OF f] verifySelected_first [OF p, of d v params]
      using rest by auto
    then show ?thesis
      by (simp add: verifyBytes_primitive rest(5))
  qed
  from none whole verified show ?thesis by blast
qed

text \<open>
  Three instances of C3. The first entry has an unknown key, the second and the third the
  registered one: the second is taken, and its signature verifies. The first entry has an
  unknown key and a signature value that would verify, the second the registered key and a
  wrong value: the second is taken, and Verify returns \<open>invalidSignatureError\<close>. The only
  entry has an unknown key: \<open>unknownKeyError\<close>.
\<close>

theorem Verify_first_registered_witness:
  "find (\<lambda>(sigID, params). keyID params \<in> dom (keys sampleVerifier))
     (List.map_filter (entryOf sampleDeps) (paramParts threeEntries))
     = Some (''sig2'', \<lparr>items = [''Date''], keyID = ''key1'', alg = [], expires = None\<rparr>)
   \<and> sigParts threeEntries = [''sig1=:AA==:''] @ ''sig2=:BQ==:'' # [''sig3=:AA==:'']
   \<and> DecodeString sampleDeps (Trim '':BQ==:'' '':'') = Some [5]
   \<and> Verify sampleDeps sampleVerifier threeEntries = Returns None
   \<and> find (\<lambda>(sigID, params). keyID params \<in> dom (keys sampleVerifier))
       (List.map_filter (entryOf sampleDeps) (paramParts selectedSignatureWrong))
       = Some (''sig2'', \<lparr>items = [''Date''], keyID = ''key1'', alg = [], expires = None\<rparr>)
   \<and> sigParts selectedSignatureWrong = [''sig1=:BQ==:''] @ ''sig2=:AA==:'' # []
   \<and> DecodeString sampleDeps (Trim '':AA==:'' '':'') = Some [0]
   \<and> Verify sampleDeps sampleVerifier selectedSignatureWrong
       = Returns (Some invalidSignatureError)
   \<and> find (\<lambda>(sigID, params). keyID params \<in> dom (keys sampleVerifier))
       (List.map_filter (entryOf sampleDeps) (paramParts unknownKeyOnly)) = None
   \<and> Verify sampleDeps sampleVerifier unknownKeyOnly = Returns (Some unknownKeyError)"
proof -
  let ?p = "\<lparr>items = [''Date''], keyID = ''key1'', alg = [], expires = None\<rparr>"
  let ?h = "verifyHmacSha256 sampleMac [7]"
  note T = Verify_first_registered
  have ver: "keys sampleVerifier (keyID ?p) = Some ?h"
    by (simp add: sample_keys)
  have ok: "\<not> (verHolder.alg ?h \<noteq> [] \<and> signatureParams.alg ?p \<noteq> []
      \<and> verHolder.alg ?h \<noteq> signatureParams.alg ?p)"
    by simp
  have lt: "length (sigParts threeEntries) = length (paramParts threeEntries)"
    by (simp add: threeEntries_parts)
  have pre1: "\<forall>q \<in> set [''sig1=:AA==:'']. \<exists>k val. SplitN q ''='' 2 = [k, val] \<and> k \<noteq> ''sig2''"
    by (simp add: sample_SplitN_more)
  have dect: "DecodeString sampleDeps (Trim '':BQ==:'' '':'') = Some [5]"
    by (simp only: sample_Trim sample_Decode)
  have net: "Trim '':BQ==:'' '':'' \<noteq> []"
    by (simp add: sample_Trim)
  have cant: "canonicalizeItems sampleDeps threeEntries (items ?p) [] = Inr [1]"
    by (simp add: threeEntries_def sample_canonicalizeItems del: canonicalizeItems.simps)
  have ht: "find (\<lambda>(sigID, params). keyID params \<in> dom (keys sampleVerifier))
        (List.map_filter (entryOf sampleDeps) (paramParts threeEntries)) = Some (''sig2'', ?p)
      \<and> sigParts threeEntries = [''sig1=:AA==:''] @ ''sig2=:BQ==:'' # [''sig3=:AA==:'']
      \<and> (\<forall>q \<in> set [''sig1=:AA==:'']. \<exists>k val. SplitN q ''='' 2 = [k, val] \<and> k \<noteq> ''sig2'')
      \<and> SplitN ''sig2=:BQ==:'' ''='' 2 = [''sig2'', '':BQ==:'']
      \<and> Trim '':BQ==:'' '':'' \<noteq> []
      \<and> keys sampleVerifier (keyID ?p) = Some ?h
      \<and> \<not> (verHolder.alg ?h \<noteq> [] \<and> signatureParams.alg ?p \<noteq> []
             \<and> verHolder.alg ?h \<noteq> signatureParams.alg ?p)
      \<and> DecodeString sampleDeps (Trim '':BQ==:'' '':'') = Some [5]
      \<and> canonicalizeItems sampleDeps threeEntries (items ?p) [] = Inr [1]"
    by (intro conjI)
       (fact sample_first_registered(1) threeEntries_parts(3) pre1 sample_SplitN_more(2) net ver
          ok dect cant)+
  note Et = T [OF threeEntries_parts(1,2) lt sample_all_parse(1), THEN conjunct2, THEN conjunct2,
      THEN spec, THEN spec, THEN spec, THEN spec, THEN spec, THEN spec, THEN spec, THEN spec,
      THEN spec, THEN mp, OF ht]
  have first: "Verify sampleDeps sampleVerifier threeEntries = Returns None"
    unfolding Et sample_verify by simp
  have lw: "length (sigParts selectedSignatureWrong) = length (paramParts selectedSignatureWrong)"
    by (simp add: selectedSignatureWrong_parts)
  have pre2: "\<forall>q \<in> set [''sig1=:BQ==:'']. \<exists>k val. SplitN q ''='' 2 = [k, val] \<and> k \<noteq> ''sig2''"
    by (simp add: sample_SplitN)
  have decw: "DecodeString sampleDeps (Trim '':AA==:'' '':'') = Some [0]"
    by (simp only: sample_Trim_wrong sample_Decode_wrong)
  have new: "Trim '':AA==:'' '':'' \<noteq> []"
    by (simp add: sample_Trim_wrong)
  have canw: "canonicalizeItems sampleDeps selectedSignatureWrong (items ?p) [] = Inr [1]"
    by (simp add: selectedSignatureWrong_def sample_canonicalizeItems del: canonicalizeItems.simps)
  have hw: "find (\<lambda>(sigID, params). keyID params \<in> dom (keys sampleVerifier))
        (List.map_filter (entryOf sampleDeps) (paramParts selectedSignatureWrong))
        = Some (''sig2'', ?p)
      \<and> sigParts selectedSignatureWrong = [''sig1=:BQ==:''] @ ''sig2=:AA==:'' # []
      \<and> (\<forall>q \<in> set [''sig1=:BQ==:'']. \<exists>k val. SplitN q ''='' 2 = [k, val] \<and> k \<noteq> ''sig2'')
      \<and> SplitN ''sig2=:AA==:'' ''='' 2 = [''sig2'', '':AA==:'']
      \<and> Trim '':AA==:'' '':'' \<noteq> []
      \<and> keys sampleVerifier (keyID ?p) = Some ?h
      \<and> \<not> (verHolder.alg ?h \<noteq> [] \<and> signatureParams.alg ?p \<noteq> []
             \<and> verHolder.alg ?h \<noteq> signatureParams.alg ?p)
      \<and> DecodeString sampleDeps (Trim '':AA==:'' '':'') = Some [0]
      \<and> canonicalizeItems sampleDeps selectedSignatureWrong (items ?p) [] = Inr [1]"
    by (intro conjI)
       (fact sample_first_registered(2) selectedSignatureWrong_parts(3) pre2
          sample_SplitN_more(3) new ver ok decw canw)+
  note Ew = T [OF selectedSignatureWrong_parts(1,2) lw sample_all_parse(2), THEN conjunct2,
      THEN conjunct2, THEN spec, THEN spec, THEN spec, THEN spec, THEN spec, THEN spec, THEN spec,
      THEN spec, THEN spec, THEN mp, OF hw]
  have second: "Verify sampleDeps sampleVerifier selectedSignatureWrong
      = Returns (Some invalidSignatureError)"
    unfolding Ew sample_verify by simp
  have lu: "length (sigParts unknownKeyOnly) = length (paramParts unknownKeyOnly)"
    by (simp add: unknownKeyOnly_parts)
  have third: "Verify sampleDeps sampleVerifier unknownKeyOnly = Returns (Some unknownKeyError)"
    by (rule T [OF unknownKeyOnly_parts(1,2) lu sample_all_parse(3), THEN conjunct1, THEN mp,
          OF sample_first_registered(3)])
  show ?thesis
    by (intro conjI)
       (fact sample_first_registered threeEntries_parts(3) dect first
          selectedSignatureWrong_parts(3) decw second third)+
qed

section \<open>C4: the time source of the expiry check\<close>

text \<open>
  C4 (not what the code does). The verifier has a field \<open>nowFunc\<close>, "for testing", but
  line 142 calls \<^verbatim>\<open>time.Now()\<close>. On the sample message, whose \<open>expires\<close> is 100, a \<open>nowFunc\<close>
  that returns 0 and one that returns 1000 give the same outcome: nil when the clock reads
  200, \<open>signatureExpiredError\<close> when it reads 50.
\<close>

theorem Verify_ignores_nowFunc:
  "nowFunc (sampleVerifier\<lparr>nowFunc := \<lambda>_. 0\<rparr>) () = 0
   \<and> nowFunc (sampleVerifier\<lparr>nowFunc := \<lambda>_. 1000\<rparr>) () = 1000
   \<and> Verify sampleDeps (sampleVerifier\<lparr>nowFunc := \<lambda>_. 0\<rparr>) expiredMessage = Returns None
   \<and> Verify sampleDeps (sampleVerifier\<lparr>nowFunc := \<lambda>_. 1000\<rparr>) expiredMessage = Returns None
   \<and> Verify (sampleDeps\<lparr>Now := 50\<rparr>) (sampleVerifier\<lparr>nowFunc := \<lambda>_. 0\<rparr>) expiredMessage
       = Returns (Some signatureExpiredError)
   \<and> Verify (sampleDeps\<lparr>Now := 50\<rparr>) (sampleVerifier\<lparr>nowFunc := \<lambda>_. 1000\<rparr>) expiredMessage
       = Returns (Some signatureExpiredError)"
proof -
  have "Verify sampleDeps sampleVerifier expiredMessage = Returns None"
    unfolding expiredMessage_def by code_simp
  moreover have "Verify (sampleDeps\<lparr>Now := 50\<rparr>) sampleVerifier expiredMessage
      = Returns (Some signatureExpiredError)"
    unfolding expiredMessage_def by code_simp
  ultimately show ?thesis by (simp add: Verify_nowFunc)
qed

section \<open>C5: which parameter blobs are parsed\<close>

text \<open>
  C5, as the code has it. The parts of Signature-Input are parsed in header order, up to and
  including the first one whose key id is registered. Let the parts before \<open>p\<close> be well
  formed with unregistered key ids. If \<open>p\<close> is not well formed, Verify returns
  \<open>malformedSignatureError\<close>. If \<open>p\<close> is well formed and its key id is registered, Verify goes
  on with \<open>p\<close>, and the parts after \<open>p\<close> are not parsed: the outcome is the same for every
  parser that agrees with this one on the blobs of the parts up to and including \<open>p\<close>,
  whatever it answers on the blobs after \<open>p\<close>.
\<close>

theorem Verify_parses_up_to_match:
  assumes present: "sigHdr msg \<noteq> []" "paramHdr msg \<noteq> []"
    and len: "length (sigParts msg) = length (paramParts msg)"
    and parts: "paramParts msg = pre @ p # rest"
    and skipped: "\<forall>q \<in> set pre. \<exists>sigID c. entryOf d q = Some (sigID, c) \<and> keys v (keyID c) = None"
  shows "(entryOf d p = None \<longrightarrow> Verify d v msg = Returns (Some malformedSignatureError))
    \<and> (\<forall>sigID c. entryOf d p = Some (sigID, c) \<and> keys v (keyID c) \<noteq> None
          \<longrightarrow> Verify d v msg = verifySelected d v msg sigID c
              \<and> (\<forall>parse'.
                    (\<forall>q \<in> set (pre @ [p]). \<forall>k blob. SplitN q ''='' 2 = [k, blob]
                        \<longrightarrow> parse' blob = parseSignatureInput d blob)
                    \<longrightarrow> Verify (d\<lparr>parseSignatureInput := parse'\<rparr>) v msg = Verify d v msg))"
proof -
  have sel: "selectParams d (keys v) (paramParts msg) = selectParams d (keys v) (p # rest)"
    unfolding parts by (rule selectParams_skip [OF skipped])
  have bad: "Verify d v msg = Returns (Some malformedSignatureError)" if "entryOf d p = None"
  proof -
    from that have "selectParams d (keys v) (p # rest) = Inl malformedSignatureError"
      by (simp add: selectParams_Cons del: selectParams.simps(2))
    then show ?thesis
      by (simp add: Verify_select [OF present len] sel)
  qed
  have good: "Verify d v msg = verifySelected d v msg sigID c"
    if "entryOf d p = Some (sigID, c) \<and> keys v (keyID c) \<noteq> None" for sigID c
  proof -
    from that have "selectParams d (keys v) (p # rest) = Inr (Some (sigID, c))"
      by (auto simp: selectParams_Cons simp del: selectParams.simps(2))
    then show ?thesis
      by (simp add: Verify_select [OF present len] sel)
  qed
  have later: "Verify (d\<lparr>parseSignatureInput := parse'\<rparr>) v msg = Verify d v msg"
    if e: "entryOf d p = Some (sigID, c) \<and> keys v (keyID c) \<noteq> None"
      and same: "\<forall>q \<in> set (pre @ [p]). \<forall>k blob. SplitN q ''='' 2 = [k, blob]
          \<longrightarrow> parse' blob = parseSignatureInput d blob"
    for sigID c parse'
  proof -
    let ?d = "d\<lparr>parseSignatureInput := parse'\<rparr>"
    have eq: "entryOf ?d q = entryOf d q" if "q \<in> set (pre @ [p])" for q
      using same that by (intro entryOf_parse) blast
    have skipped': "\<forall>q \<in> set pre. \<exists>sigID c. entryOf ?d q = Some (sigID, c)
        \<and> keys v (keyID c) = None"
      using skipped eq by simp
    have "selectParams ?d (keys v) (paramParts msg) = selectParams ?d (keys v) (p # rest)"
      unfolding parts by (rule selectParams_skip [OF skipped'])
    moreover from e eq [of p] have "selectParams ?d (keys v) (p # rest) = Inr (Some (sigID, c))"
      by (auto simp: selectParams_Cons simp del: selectParams.simps(2))
    ultimately have "Verify ?d v msg = verifySelected ?d v msg sigID c"
      by (simp add: Verify_select [OF present len])
    then show ?thesis
      by (simp only: verifySelected_parse good [OF e])
  qed
  from bad good later show ?thesis by blast
qed

text \<open>
  Instances of C5. The blob that does not parse stands after the entry with the registered
  key: Verify goes on with that entry, and a parser that accepts the later blob gives the
  same outcome as the one that refuses it. The blob that does not parse stands before the
  entry with the registered key: \<open>malformedSignatureError\<close>.
\<close>

theorem Verify_parses_up_to_match_witness:
  "paramParts malformedAfterMatch = [] @ ''sig1=(Date);keyid=key1'' # [''sig2=garbage'']
   \<and> entryOf sampleDeps ''sig2=garbage'' = None
   \<and> Verify sampleDeps sampleVerifier malformedAfterMatch
       = verifySelected sampleDeps sampleVerifier malformedAfterMatch ''sig1''
           \<lparr>items = [''Date''], keyID = ''key1'', alg = [], expires = None\<rparr>
   \<and> parseSignatureInput sampleDeps ''garbage'' = None
   \<and> parseSignatureInput (sampleDeps\<lparr>parseSignatureInput := lenientParse\<rparr>) ''garbage''
       = Some \<lparr>items = [''Date''], keyID = ''key1'', alg = [], expires = None\<rparr>
   \<and> Verify (sampleDeps\<lparr>parseSignatureInput := lenientParse\<rparr>) sampleVerifier malformedAfterMatch
       = Verify sampleDeps sampleVerifier malformedAfterMatch
   \<and> paramParts malformedBeforeMatch
       = [''sig1=(Date);keyid=key2''] @ ''sig2=garbage'' # [''sig3=(Date);keyid=key1'']
   \<and> Verify sampleDeps sampleVerifier malformedBeforeMatch = Returns (Some malformedSignatureError)"
proof -
  let ?p = "\<lparr>items = [''Date''], keyID = ''key1'', alg = [], expires = None\<rparr>"
  note T = Verify_parses_up_to_match
  have a: "paramParts malformedAfterMatch = [] @ ''sig1=(Date);keyid=key1'' # [''sig2=garbage'']"
    by (simp add: malformedAfterMatch_parts)
  have la: "length (sigParts malformedAfterMatch) = length (paramParts malformedAfterMatch)"
    by (simp add: malformedAfterMatch_parts)
  have none: "\<forall>q \<in> set []. \<exists>sigID c. entryOf sampleDeps q = Some (sigID, c)
      \<and> keys sampleVerifier (keyID c) = None"
    by simp
  have e: "entryOf sampleDeps ''sig1=(Date);keyid=key1'' = Some (''sig1'', ?p)
      \<and> keys sampleVerifier (keyID ?p) \<noteq> None"
    by (simp add: sample_entryOf_sig1 sample_keys)
  note Ea = T [OF malformedAfterMatch_parts(1,2) la a none, THEN conjunct2, THEN spec, THEN spec,
      THEN mp, OF e]
  have first: "Verify sampleDeps sampleVerifier malformedAfterMatch
       = verifySelected sampleDeps sampleVerifier malformedAfterMatch ''sig1'' ?p"
    by (rule Ea [THEN conjunct1])
  have indep: "Verify (sampleDeps\<lparr>parseSignatureInput := lenientParse\<rparr>) sampleVerifier
        malformedAfterMatch
      = Verify sampleDeps sampleVerifier malformedAfterMatch"
    by (rule Ea [THEN conjunct2, THEN spec, THEN mp, OF sample_lenient_same])
  have g: "parseSignatureInput sampleDeps ''garbage'' = None"
    by code_simp
  have sb: "sigHdr malformedBeforeMatch \<noteq> []" and pb: "paramHdr malformedBeforeMatch \<noteq> []"
    by (simp_all add: malformedBeforeMatch_def sample_sigHdr sample_paramHdr)
  have spb: "sigParts malformedBeforeMatch = [''sig1=:BQ==:'', ''sig2=:BQ==:'', ''sig3=:BQ==:'']"
    unfolding sigParts_def malformedBeforeMatch_def sample_sigHdr by code_simp
  have b: "paramParts malformedBeforeMatch
       = [''sig1=(Date);keyid=key2''] @ ''sig2=garbage'' # [''sig3=(Date);keyid=key1'']"
    unfolding paramParts_def malformedBeforeMatch_def sample_paramHdr by code_simp
  have lb: "length (sigParts malformedBeforeMatch) = length (paramParts malformedBeforeMatch)"
    by (simp add: spb b)
  have skipped: "\<forall>q \<in> set [''sig1=(Date);keyid=key2'']. \<exists>sigID c.
      entryOf sampleDeps q = Some (sigID, c) \<and> keys sampleVerifier (keyID c) = None"
    by (simp add: sample_entryOf_key2 sample_keys)
  have second: "Verify sampleDeps sampleVerifier malformedBeforeMatch
      = Returns (Some malformedSignatureError)"
    by (rule T [OF sb pb lb b skipped, THEN conjunct1, THEN mp, OF sample_entryOf_garbage])
  show ?thesis
    by (intro conjI)
       (fact a sample_entryOf_garbage first g sample_lenient_garbage indep b second)+
qed

text \<open>
  C5 as the specification words it wants \<open>malformedSignatureError\<close> for a malformed blob that
  comes after an entry with a registered key. The loop breaks at that entry (line 72): the
  second blob is never parsed, and Verify returns nil.
\<close>

theorem Verify_malformed_after_match:
  "paramParts malformedAfterMatch = [''sig1=(Date);keyid=key1'', ''sig2=garbage'']
   \<and> keys sampleVerifier ''key1'' \<noteq> None
   \<and> entryOf sampleDeps ''sig1=(Date);keyid=key1''
       = Some (''sig1'', \<lparr>items = [''Date''], keyID = ''key1'', alg = [], expires = None\<rparr>)
   \<and> entryOf sampleDeps ''sig2=garbage'' = None
   \<and> parseSignatureInput sampleDeps ''garbage'' = None
   \<and> Verify sampleDeps sampleVerifier malformedAfterMatch = Returns None
   \<and> Verify sampleDeps sampleVerifier malformedAfterMatch \<noteq> Returns (Some malformedSignatureError)"
proof -
  have "parseSignatureInput sampleDeps ''garbage'' = None"
    by code_simp
  moreover have "Verify sampleDeps sampleVerifier malformedAfterMatch = Returns None"
    unfolding malformedAfterMatch_def by code_simp
  ultimately show ?thesis
    by (simp add: malformedAfterMatch_parts sample_entryOf_garbage sample_entryOf_sig1 sample_keys)
qed

section \<open>C6: the algorithm labels\<close>

text \<open>
  C6. Let the run reach line 98: an entry is selected, the Signature header has a non-empty
  value for its id, and \<open>ver\<close> is the registry entry of its key. Then Verify returns
  \<open>algMismatchError\<close> exactly when the label of \<open>ver\<close> and the parsed \<open>alg\<close> are both non-empty
  and differ (provided no canonicalizer returns that error itself); in particular the check
  passes when either label is empty. When the labels clash, the outcome is
  \<open>algMismatchError\<close> whatever the base64 decoder, the canonicalizers, the clock and the
  entry's constructor of instances are: none of them is consulted before the check.
\<close>

theorem Verify_algMismatch:
  assumes present: "sigHdr msg \<noteq> []" "paramHdr msg \<noteq> []"
    and len: "length (sigParts msg) = length (paramParts msg)"
    and sel: "selectParams d (keys v) (paramParts msg) = Inr (Some (sigID, params))"
    and found: "findSignature sigID (sigParts msg) = Inr signature" "signature \<noteq> []"
    and ver: "keys v (keyID params) = Some ver"
  shows "(canonicalizersNeverReturn d algMismatchError \<longrightarrow>
           (Verify d v msg = Returns (Some algMismatchError))
           = (verHolder.alg ver \<noteq> [] \<and> signatureParams.alg params \<noteq> []
              \<and> verHolder.alg ver \<noteq> signatureParams.alg params))
    \<and> (verHolder.alg ver \<noteq> [] \<and> signatureParams.alg params \<noteq> []
          \<and> verHolder.alg ver \<noteq> signatureParams.alg params \<longrightarrow>
        (\<forall>dec crt ch csp now f.
           Verify (d\<lparr>DecodeString := dec, canonicalizeRequestTarget := crt,
                     canonicalizeHeader := ch, canonicalizeSignatureParams := csp, Now := now\<rparr>)
                  (v\<lparr>keys := (keys v)(keyID params \<mapsto> ver\<lparr>verifier := f\<rparr>)\<rparr>) msg
           = Returns (Some algMismatchError)))"
proof (intro conjI impI allI)
  assume never: "canonicalizersNeverReturn d algMismatchError"
  have V: "Verify d v msg = verifySelected d v msg sigID params"
    by (simp add: Verify_select [OF present len] sel)
  show "(Verify d v msg = Returns (Some algMismatchError))
      = (verHolder.alg ver \<noteq> [] \<and> signatureParams.alg params \<noteq> []
         \<and> verHolder.alg ver \<noteq> signatureParams.alg params)"
  proof (cases "verHolder.alg ver \<noteq> [] \<and> signatureParams.alg params \<noteq> []
         \<and> verHolder.alg ver \<noteq> signatureParams.alg params")
    case True
    then show ?thesis by (simp add: V verifySelected_found [OF found ver])
  next
    case False
    have "Verify d v msg \<noteq> Returns (Some algMismatchError)"
    proof (cases "DecodeString d signature")
      case None
      with False show ?thesis
        unfolding V verifySelected_found [OF found ver] by auto
    next
      case (Some sig)
      with False have "Verify d v msg = verifyBytes d msg params ver sig"
        unfolding V verifySelected_found [OF found ver] by auto
      with verifyBytes_error [OF _ never, of msg params ver sig] show ?thesis by auto
    qed
    with False show ?thesis by simp
  qed
next
  fix dec crt ch csp now f
  assume differ: "verHolder.alg ver \<noteq> [] \<and> signatureParams.alg params \<noteq> []
          \<and> verHolder.alg ver \<noteq> signatureParams.alg params"
  let ?d = "d\<lparr>DecodeString := dec, canonicalizeRequestTarget := crt,
               canonicalizeHeader := ch, canonicalizeSignatureParams := csp, Now := now\<rparr>"
  let ?v = "v\<lparr>keys := (keys v)(keyID params \<mapsto> ver\<lparr>verifier := f\<rparr>)\<rparr>"
  have "\<And>k. (keys ?v k = None) = (keys v k = None)"
    using ver by simp
  then have "selectParams ?d (keys ?v) (paramParts msg) = selectParams d (keys v) (paramParts msg)"
    by (intro selectParams_cong) simp_all
  with sel have V: "Verify ?d ?v msg = verifySelected ?d ?v msg sigID params"
    by (simp add: Verify_select [OF present len])
  have "keys ?v (keyID params) = Some (ver\<lparr>verifier := f\<rparr>)"
    by simp
  from verifySelected_found [OF found this] differ
  show "Verify ?d ?v msg = Returns (Some algMismatchError)"
    by (simp add: V)
qed

text \<open>
  An instance of C6: the key is registered for \<^verbatim>\<open>hmac-sha256\<close>, the parameters declare
  \<^verbatim>\<open>rsa-pss-sha512\<close>.
\<close>

theorem Verify_algMismatch_witness:
  "selectParams sampleDeps (keys sampleVerifier) (paramParts wrongAlg)
     = Inr (Some (''sig1'', \<lparr>items = [''Date''], keyID = ''key1'', alg = ''rsa-pss-sha512'',
                             expires = None\<rparr>))
   \<and> findSignature ''sig1'' (sigParts wrongAlg) = Inr ''BQ==''
   \<and> keys sampleVerifier ''key1'' = Some (verifyHmacSha256 sampleMac [7])
   \<and> verHolder.alg (verifyHmacSha256 sampleMac [7]) = ''hmac-sha256''
   \<and> canonicalizersNeverReturn sampleDeps algMismatchError
   \<and> Verify sampleDeps sampleVerifier wrongAlg = Returns (Some algMismatchError)"
proof -
  let ?p = "\<lparr>items = [''Date''], keyID = ''key1'', alg = ''rsa-pss-sha512'', expires = None\<rparr>"
  have len: "length (sigParts wrongAlg) = length (paramParts wrongAlg)"
    by (simp add: wrongAlg_parts)
  have sel: "selectParams sampleDeps (keys sampleVerifier) (paramParts wrongAlg)
      = Inr (Some (''sig1'', ?p))"
    by (simp only: wrongAlg_parts sample_select_rsa)
  have found: "findSignature ''sig1'' (sigParts wrongAlg) = Inr ''BQ==''"
    by (simp only: wrongAlg_parts sample_findSignature)
  have ne: "''BQ=='' \<noteq> []" by simp
  have ver: "keys sampleVerifier (keyID ?p) = Some (verifyHmacSha256 sampleMac [7])"
    by (simp add: sample_keys)
  have lab: "verHolder.alg (verifyHmacSha256 sampleMac [7]) = ''hmac-sha256''"
    by (simp add: verifyHmacSha256_def)
  have never: "canonicalizersNeverReturn sampleDeps algMismatchError"
    by (simp add: sample_canonicalizers)
  from Verify_algMismatch [OF wrongAlg_parts(1,2) len sel found ne ver] never lab
  have "Verify sampleDeps sampleVerifier wrongAlg = Returns (Some algMismatchError)"
    by simp
  with sel found ver lab never show ?thesis by simp
qed

section \<open>C7: the signature value\<close>

text \<open>
  C7, as the code has it. Let an entry with id \<open>sigID\<close> be selected. If no part of the
  Signature header has that id, Verify returns \<open>malformedSignatureError\<close>. Otherwise let \<open>s\<close>
  be the first part with that id and \<open>raw\<close> what follows its first \<^verbatim>\<open>=\<close>; the value is \<open>raw\<close>
  without its leading and trailing colons. If the value is empty, Verify returns
  \<open>malformedSignatureError\<close>, whatever the algorithm labels are (line 94 stands before the
  test of the labels). If it is not empty, the labels are tested next: a clash gives
  \<open>algMismatchError\<close>, also for a value that does not decode; without a clash Verify returns
  \<open>malformedSignatureError\<close> when the value does not decode, and otherwise canonicalizes and
  calls \<open>verify\<close> on the decoded bytes.
\<close>

theorem Verify_signature_value:
  assumes present: "sigHdr msg \<noteq> []" "paramHdr msg \<noteq> []"
    and len: "length (sigParts msg) = length (paramParts msg)"
    and sel: "selectParams d (keys v) (paramParts msg) = Inr (Some (sigID, params))"
  shows "((\<forall>s \<in> set (sigParts msg). \<forall>k val. SplitN s ''='' 2 = [k, val] \<longrightarrow> k \<noteq> sigID)
          \<longrightarrow> Verify d v msg = Returns (Some malformedSignatureError))
    \<and> (\<forall>pre s rest raw.
          sigParts msg = pre @ s # rest
          \<and> (\<forall>q \<in> set pre. \<exists>k val. SplitN q ''='' 2 = [k, val] \<and> k \<noteq> sigID)
          \<and> SplitN s ''='' 2 = [sigID, raw]
          \<longrightarrow>
            (Trim raw '':'' = [] \<longrightarrow> Verify d v msg = Returns (Some malformedSignatureError))
            \<and> (\<forall>ver. Trim raw '':'' \<noteq> [] \<and> keys v (keyID params) = Some ver \<longrightarrow>
                  Verify d v msg =
                    (if verHolder.alg ver \<noteq> [] \<and> signatureParams.alg params \<noteq> []
                        \<and> verHolder.alg ver \<noteq> signatureParams.alg params
                     then Returns (Some algMismatchError)
                     else (case DecodeString d (Trim raw '':'') of
                             None \<Rightarrow> Returns (Some malformedSignatureError)
                           | Some sig \<Rightarrow>
                               (case canonicalizeItems d msg (items params) [] of
                                  Inl err \<Rightarrow> Returns (Some err)
                                | Inr b \<Rightarrow>
                                    (case verify (verifier ver ())
                                            (w (verifier ver ()) @ b
                                               @ canonicalizeSignatureParams d params) sig of
                                       Some err \<Rightarrow> Returns (Some invalidSignatureError)
                                     | None \<Rightarrow>
                                         (case expires params of
                                            None \<Rightarrow> Returns None
                                          | Some e \<Rightarrow>
                                              if After e (Now d)
                                              then Returns (Some signatureExpiredError)
                                              else Returns None)))))))"
proof -
  have V: "Verify d v msg = verifySelected d v msg sigID params"
    by (simp add: Verify_select [OF present len] sel)
  have none: "Verify d v msg = Returns (Some malformedSignatureError)"
    if "\<forall>s \<in> set (sigParts msg). \<forall>k val. SplitN s ''='' 2 = [k, val] \<longrightarrow> k \<noteq> sigID"
    using findSignature_absent [OF that] by (auto simp: V verifySelected_def)
  have some: "(Trim raw '':'' = [] \<longrightarrow> Verify d v msg = Returns (Some malformedSignatureError))
      \<and> (\<forall>ver. Trim raw '':'' \<noteq> [] \<and> keys v (keyID params) = Some ver \<longrightarrow>
            Verify d v msg =
              (if verHolder.alg ver \<noteq> [] \<and> signatureParams.alg params \<noteq> []
                  \<and> verHolder.alg ver \<noteq> signatureParams.alg params
               then Returns (Some algMismatchError)
               else (case DecodeString d (Trim raw '':'') of
                       None \<Rightarrow> Returns (Some malformedSignatureError)
                     | Some sig \<Rightarrow>
                         (case canonicalizeItems d msg (items params) [] of
                            Inl err \<Rightarrow> Returns (Some err)
                          | Inr b \<Rightarrow>
                              (case verify (verifier ver ())
                                      (w (verifier ver ()) @ b
                                         @ canonicalizeSignatureParams d params) sig of
                                 Some err \<Rightarrow> Returns (Some invalidSignatureError)
                               | None \<Rightarrow>
                                   (case expires params of
                                      None \<Rightarrow> Returns None
                                    | Some e \<Rightarrow>
                                        if After e (Now d)
                                        then Returns (Some signatureExpiredError)
                                        else Returns None))))))"
    if h: "sigParts msg = pre @ s # rest
          \<and> (\<forall>q \<in> set pre. \<exists>k val. SplitN q ''='' 2 = [k, val] \<and> k \<noteq> sigID)
          \<and> SplitN s ''='' 2 = [sigID, raw]"
    for pre s rest raw
  proof -
    from h have f: "sigParts msg = pre @ s # rest"
      "\<forall>q \<in> set pre. \<exists>k val. SplitN q ''='' 2 = [k, val] \<and> k \<noteq> sigID"
      "SplitN s ''='' 2 = [sigID, raw]"
      by simp_all
    note E = verifySelected_first [OF f, of d v params]
    show ?thesis
      unfolding V E by (simp add: verifyBytes_primitive cong: option.case_cong if_cong)
  qed
  from none some show ?thesis by blast
qed

text \<open>
  Three instances of C7: a Signature header without the selected id; a value that does not
  decode, the labels not clashing; an empty value with clashing labels.
\<close>

theorem Verify_signature_value_witness:
  "sigParts otherId = [''sig9=:BQ==:'']
   \<and> SplitN ''sig9=:BQ==:'' ''='' 2 = [''sig9'', '':BQ==:'']
   \<and> Verify sampleDeps sampleVerifier otherId = Returns (Some malformedSignatureError)
   \<and> sigParts undecodable = [] @ ''sig1=:!!!:'' # []
   \<and> SplitN ''sig1=:!!!:'' ''='' 2 = [''sig1'', '':!!!:'']
   \<and> Trim '':!!!:'' '':'' = ''!!!''
   \<and> DecodeString sampleDeps ''!!!'' = None
   \<and> Verify sampleDeps sampleVerifier undecodable = Returns (Some malformedSignatureError)
   \<and> sigParts emptyValueWrongAlg = [] @ ''sig1=::'' # []
   \<and> SplitN ''sig1=::'' ''='' 2 = [''sig1'', ''::'']
   \<and> Trim ''::'' '':'' = []
   \<and> Verify sampleDeps sampleVerifier emptyValueWrongAlg = Returns (Some malformedSignatureError)"
proof -
  let ?p = "\<lparr>items = [''Date''], keyID = ''key1'', alg = [], expires = None\<rparr>"
  let ?r = "\<lparr>items = [''Date''], keyID = ''key1'', alg = ''rsa-pss-sha512'', expires = None\<rparr>"
  note T = Verify_signature_value
  have lo: "length (sigParts otherId) = length (paramParts otherId)"
    by (simp add: otherId_parts)
  have so: "selectParams sampleDeps (keys sampleVerifier) (paramParts otherId)
      = Inr (Some (''sig1'', ?p))"
    by (simp only: otherId_parts sample_select_key1)
  have absent: "\<forall>s \<in> set (sigParts otherId). \<forall>k val.
      SplitN s ''='' 2 = [k, val] \<longrightarrow> k \<noteq> ''sig1''"
    by (simp add: otherId_parts sample_SplitN)
  have first: "Verify sampleDeps sampleVerifier otherId = Returns (Some malformedSignatureError)"
    by (rule T [OF otherId_parts(1,2) lo so, THEN conjunct1, THEN mp, OF absent])
  have lu: "length (sigParts undecodable) = length (paramParts undecodable)"
    by (simp add: undecodable_parts)
  have su: "selectParams sampleDeps (keys sampleVerifier) (paramParts undecodable)
      = Inr (Some (''sig1'', ?p))"
    by (simp only: undecodable_parts sample_select_key1)
  have partsu: "sigParts undecodable = [] @ ''sig1=:!!!:'' # []"
    by (simp add: undecodable_parts)
  have pre: "\<forall>q \<in> set []. \<exists>k val. SplitN q ''='' 2 = [k, val] \<and> k \<noteq> ''sig1''"
    by simp
  have hu: "sigParts undecodable = [] @ ''sig1=:!!!:'' # []
      \<and> (\<forall>q \<in> set []. \<exists>k val. SplitN q ''='' 2 = [k, val] \<and> k \<noteq> ''sig1'')
      \<and> SplitN ''sig1=:!!!:'' ''='' 2 = [''sig1'', '':!!!:'']"
    by (intro conjI) (fact partsu pre sample_SplitN(1))+
  have veru: "Trim '':!!!:'' '':'' \<noteq> []
      \<and> keys sampleVerifier (keyID ?p) = Some (verifyHmacSha256 sampleMac [7])"
    by (simp add: sample_Trim sample_keys)
  note Eu = T [OF undecodable_parts(1,2) lu su, THEN conjunct2, THEN spec, THEN spec, THEN spec,
      THEN spec, THEN mp, OF hu, THEN conjunct2, THEN spec, THEN mp, OF veru]
  have second: "Verify sampleDeps sampleVerifier undecodable
      = Returns (Some malformedSignatureError)"
    unfolding Eu by (simp add: sample_Trim sample_Decode)
  have le: "length (sigParts emptyValueWrongAlg) = length (paramParts emptyValueWrongAlg)"
    by (simp add: emptyValueWrongAlg_parts)
  have se: "selectParams sampleDeps (keys sampleVerifier) (paramParts emptyValueWrongAlg)
      = Inr (Some (''sig1'', ?r))"
    by (simp only: emptyValueWrongAlg_parts sample_select_rsa)
  have partse: "sigParts emptyValueWrongAlg = [] @ ''sig1=::'' # []"
    by (simp add: emptyValueWrongAlg_parts)
  have he: "sigParts emptyValueWrongAlg = [] @ ''sig1=::'' # []
      \<and> (\<forall>q \<in> set []. \<exists>k val. SplitN q ''='' 2 = [k, val] \<and> k \<noteq> ''sig1'')
      \<and> SplitN ''sig1=::'' ''='' 2 = [''sig1'', ''::'']"
    by (intro conjI) (fact partse pre sample_SplitN_empty)+
  have third: "Verify sampleDeps sampleVerifier emptyValueWrongAlg
      = Returns (Some malformedSignatureError)"
    by (rule T [OF emptyValueWrongAlg_parts(1,2) le se, THEN conjunct2, THEN spec, THEN spec,
          THEN spec, THEN spec, THEN mp, OF he, THEN conjunct1, THEN mp, OF sample_Trim_empty])
  have op: "sigParts otherId = [''sig9=:BQ==:'']"
    by (fact otherId_parts(3))
  show ?thesis
    by (intro conjI)
       (fact op sample_SplitN(2) first partsu sample_SplitN(1) sample_Trim(1) sample_Decode(1)
          second partse sample_SplitN_empty sample_Trim_empty third)+
qed

text \<open>
  C7 as the specification words it wants \<open>malformedSignatureError\<close> whenever the value does not
  decode. When the algorithm labels clash as well, line 100 returns \<open>algMismatchError\<close> before
  line 104 decodes.
\<close>

theorem Verify_undecodable_wrong_alg:
  "findSignature ''sig1'' (sigParts wrongAlgUndecodable) = Inr ''!!!''
   \<and> DecodeString sampleDeps ''!!!'' = None
   \<and> Verify sampleDeps sampleVerifier wrongAlgUndecodable = Returns (Some algMismatchError)
   \<and> Verify sampleDeps sampleVerifier wrongAlgUndecodable \<noteq> Returns (Some malformedSignatureError)"
proof -
  have "findSignature ''sig1'' (sigParts wrongAlgUndecodable) = Inr ''!!!''"
    unfolding sigParts_def wrongAlgUndecodable_def sample_sigHdr by code_simp
  moreover have "Verify sampleDeps sampleVerifier wrongAlgUndecodable
      = Returns (Some algMismatchError)"
    unfolding wrongAlgUndecodable_def by code_simp
  ultimately show ?thesis by (simp add: sample_Decode)
qed

section \<open>C8: the cryptographic check comes before the expiry check\<close>

text \<open>
  C8. Whenever the run reaches the call of \<open>verify\<close> and the call fails, Verify returns
  \<open>invalidSignatureError\<close>, whatever \<open>expires\<close> and the clock are. And Verify returns
  \<open>signatureExpiredError\<close> only when the run reached that call and the call succeeded
  (provided no canonicalizer returns that error itself).
\<close>

theorem Verify_invalid_before_expired:
  "(\<forall>sigID params signature ver sig b err.
      reachesVerify d v msg sigID params signature ver sig b
      \<and> callVerify (fedInstance d params ver b) sig = Some err
      \<longrightarrow> Verify d v msg = Returns (Some invalidSignatureError))
   \<and> (canonicalizersNeverReturn d signatureExpiredError
        \<and> Verify d v msg = Returns (Some signatureExpiredError)
      \<longrightarrow> (\<exists>sigID params signature ver sig b.
             reachesVerify d v msg sigID params signature ver sig b
             \<and> callVerify (fedInstance d params ver b) sig = None))"
proof (intro conjI allI impI)
  fix sigID params signature ver sig b err
  assume "reachesVerify d v msg sigID params signature ver sig b
      \<and> callVerify (fedInstance d params ver b) sig = Some err"
  then show "Verify d v msg = Returns (Some invalidSignatureError)"
    by (simp add: Verify_reached [of d v msg sigID params signature ver sig b])
next
  assume a: "canonicalizersNeverReturn d signatureExpiredError
        \<and> Verify d v msg = Returns (Some signatureExpiredError)"
  then have ret: "Verify d v msg = Returns (Some signatureExpiredError)" by simp
  have present: "sigHdr msg \<noteq> []" "paramHdr msg \<noteq> []"
    using ret Verify_absent [of msg d v] by auto
  from Verify_selected [OF ret present] obtain sigID params
    where len: "length (sigParts msg) = length (paramParts msg)"
      and sel: "selectParams d (keys v) (paramParts msg) = Inr (Some (sigID, params))"
      and vs: "verifySelected d v msg sigID params = Returns (Some signatureExpiredError)"
    by auto
  from verifySelected_expired [OF vs] a obtain signature ver sig b
    where "findSignature sigID (sigParts msg) = Inr signature" "signature \<noteq> []"
      "keys v (keyID params) = Some ver"
      "\<not> (verHolder.alg ver \<noteq> [] \<and> signatureParams.alg params \<noteq> []
             \<and> verHolder.alg ver \<noteq> signatureParams.alg params)"
      "DecodeString d signature = Some sig"
      "canonicalizeItems d msg (items params) [] = Inr b"
      "callVerify (fedInstance d params ver b) sig = None"
    by blast
  with present len sel
  have "reachesVerify d v msg sigID params signature ver sig b
      \<and> callVerify (fedInstance d params ver b) sig = None"
    by (simp add: reachesVerify_def)
  then show "\<exists>sigID params signature ver sig b.
             reachesVerify d v msg sigID params signature ver sig b
             \<and> callVerify (fedInstance d params ver b) sig = None"
    by blast
qed

text \<open>
  Two instances of C8: a wrong signature with \<open>expires = 100\<close> at time 200 gives
  \<open>invalidSignatureError\<close>; and a run that returns \<open>signatureExpiredError\<close>.
\<close>

theorem Verify_invalid_before_expired_witness:
  "reachesVerify sampleDeps sampleVerifier wrongSignature ''sig1''
     \<lparr>items = [''Date''], keyID = ''key1'', alg = [], expires = Some 100\<rparr>
     ''AA=='' (verifyHmacSha256 sampleMac [7]) [0] [1]
   \<and> callVerify (fedInstance sampleDeps
         \<lparr>items = [''Date''], keyID = ''key1'', alg = [], expires = Some 100\<rparr>
         (verifyHmacSha256 sampleMac [7]) [1]) [0] = Some invalidSignatureError
   \<and> Now sampleDeps = 200
   \<and> Verify sampleDeps sampleVerifier wrongSignature = Returns (Some invalidSignatureError)
   \<and> canonicalizersNeverReturn (sampleDeps\<lparr>Now := 50\<rparr>) signatureExpiredError
   \<and> Verify (sampleDeps\<lparr>Now := 50\<rparr>) sampleVerifier expiredMessage
       = Returns (Some signatureExpiredError)
   \<and> (\<exists>sigID params signature ver sig b.
         reachesVerify (sampleDeps\<lparr>Now := 50\<rparr>) sampleVerifier expiredMessage
           sigID params signature ver sig b
         \<and> callVerify (fedInstance (sampleDeps\<lparr>Now := 50\<rparr>) params ver b) sig = None)"
proof -
  let ?p = "\<lparr>items = [''Date''], keyID = ''key1'', alg = [], expires = Some 100\<rparr>"
  let ?h = "verifyHmacSha256 sampleMac [7]"
  note T = Verify_invalid_before_expired
  have fails: "callVerify (fedInstance sampleDeps ?p ?h [1]) [0] = Some invalidSignatureError"
    by (simp add: sample_callVerify)
  have first: "Verify sampleDeps sampleVerifier wrongSignature
      = Returns (Some invalidSignatureError)"
    by (rule T [of sampleDeps sampleVerifier wrongSignature, THEN conjunct1, rule_format,
          OF conjI, OF sample_reaches_wrong fails])
  have never: "canonicalizersNeverReturn (sampleDeps\<lparr>Now := 50\<rparr>) signatureExpiredError"
    using sample_canonicalizers [of signatureExpiredError]
    by (simp add: canonicalizersNeverReturn_def)
  have expired: "Verify (sampleDeps\<lparr>Now := 50\<rparr>) sampleVerifier expiredMessage
      = Returns (Some signatureExpiredError)"
    unfolding expiredMessage_def by code_simp
  have second: "\<exists>sigID params signature ver sig b.
         reachesVerify (sampleDeps\<lparr>Now := 50\<rparr>) sampleVerifier expiredMessage
           sigID params signature ver sig b
         \<and> callVerify (fedInstance (sampleDeps\<lparr>Now := 50\<rparr>) params ver b) sig = None"
    by (rule T [of "sampleDeps\<lparr>Now := 50\<rparr>" sampleVerifier expiredMessage, THEN conjunct2,
          rule_format, OF conjI, OF never expired])
  have now: "Now sampleDeps = 200" by (simp add: sampleDeps_def)
  show ?thesis
    by (intro conjI) (fact sample_reaches_wrong fails now first never expired second)+
qed

section \<open>C9: the instance made by verifyHmacSha256\<close>

text \<open>
  C9. For every secret and every sequence of writes to the instance that
  \<open>verifyHmacSha256 secret\<close> makes, the instance's \<open>verify\<close> returns nil exactly when the
  signature it is given equals the HMAC-SHA256, under that secret, of the bytes written
  (all the writes, in order), and \<open>invalidSignatureError\<close> otherwise.
\<close>

theorem verifyHmacSha256_verify:
  "callVerify
     (fold (\<lambda>p impl. Write impl p) chunks (verifier (verifyHmacSha256 hmacSha256 secret) ()))
     sig
   = (if sig = hmacSha256 secret (concat chunks) then None else Some invalidSignatureError)"
proof -
  let ?impl = "fold (\<lambda>p impl. Write impl p) chunks (verifier (verifyHmacSha256 hmacSha256 secret) ())"
  have written: "w ?impl = concat chunks"
    by (simp add: w_fold_Write verifyHmacSha256_def)
  have closure: "verify ?impl = verify (verifier (verifyHmacSha256 hmacSha256 secret) ())"
    by (rule verify_fold_Write)
  show ?thesis
    unfolding callVerify_def written closure
    by (simp add: verifyHmacSha256_def hmac_Equal_iff)
qed

section \<open>C10: the delimiter of the two header values\<close>

text \<open>
  C10, as the code has it. Verify splits both header values at the instances of the two
  bytes \<^verbatim>\<open>", "\<close>, found left to right. A value without that delimiter is one entry, so
  entries separated by a comma alone are not split. A delimiter after a text \<open>a\<close> that has
  none cuts \<open>a\<close> off, whatever follows: a comma with several spaces after it still splits,
  and the further spaces stay at the head of the next entry. When exactly one of the two
  header values has the delimiter, the lists differ in length and Verify returns
  \<open>malformedSignatureError\<close>.
\<close>

theorem Verify_splits_at_comma_space:
  "sigParts msg = Split (sigHdr msg) '', ''
   \<and> paramParts msg = Split (paramHdr msg) '', ''
   \<and> (Index s '', '' = None \<longrightarrow> Split s '', '' = [s])
   \<and> (Index a '', '' = None \<longrightarrow> Split (a @ '', '' @ rest) '', '' = a # Split rest '', '')
   \<and> (sigHdr msg \<noteq> [] \<and> paramHdr msg \<noteq> []
        \<and> (Index (sigHdr msg) '', '' = None) \<noteq> (Index (paramHdr msg) '', '' = None)
      \<longrightarrow> Verify d v msg = Returns (Some malformedSignatureError))"
proof (intro conjI impI)
  show "sigParts msg = Split (sigHdr msg) '', ''" by (simp add: sigParts_def)
  show "paramParts msg = Split (paramHdr msg) '', ''" by (simp add: paramParts_def)
next
  assume "Index s '', '' = None"
  then show "Split s '', '' = [s]" by (rule Split_no_delimiter)
next
  assume "Index a '', '' = None"
  then show "Split (a @ '', '' @ rest) '', '' = a # Split rest '', ''"
    by (rule Split_at_delimiter)
next
  assume h: "sigHdr msg \<noteq> [] \<and> paramHdr msg \<noteq> []
      \<and> (Index (sigHdr msg) '', '' = None) \<noteq> (Index (paramHdr msg) '', '' = None)"
  have one: "\<And>s. Index s '', '' = None \<Longrightarrow> length (Split s '', '') = 1"
    by (simp add: Split_no_delimiter)
  have two: "\<And>s. Index s '', '' \<noteq> None \<Longrightarrow> 2 \<le> length (Split s '', '')"
    using Split_delimiter_length by auto
  from h have "length (sigParts msg) \<noteq> length (paramParts msg)"
    unfolding sigParts_def paramParts_def
    using one [of "sigHdr msg"] one [of "paramHdr msg"] two [of "sigHdr msg"] two [of "paramHdr msg"]
    by (cases "Index (sigHdr msg) '', '' = None") auto
  with h show "Verify d v msg = Returns (Some malformedSignatureError)"
    by (simp add: Verify_mismatch)
qed

text \<open>
  Instances of C10: two entries joined by a comma alone stay one entry; a delimiter followed
  by a space cuts; a message whose Signature-Input has a comma alone is refused.
\<close>

theorem Verify_splits_at_comma_space_witness:
  "Index ''sig1=(Date);keyid=key1,sig2=(Date);keyid=key2'' '', '' = None
   \<and> Split ''sig1=(Date);keyid=key1,sig2=(Date);keyid=key2'' '', ''
       = [''sig1=(Date);keyid=key1,sig2=(Date);keyid=key2'']
   \<and> Index ''sig1=:BQ==:'' '', '' = None
   \<and> Split (''sig1=:BQ==:'' @ '', '' @ '' sig2=:AA==:'') '', ''
       = ''sig1=:BQ==:'' # Split '' sig2=:AA==:'' '', ''
   \<and> sigHdr bareComma = ''sig1=:BQ==:, sig2=:AA==:''
   \<and> paramHdr bareComma = ''sig1=(Date);keyid=key1,sig2=(Date);keyid=key2''
   \<and> Index (sigHdr bareComma) '', '' = Some 11
   \<and> Verify sampleDeps sampleVerifier bareComma = Returns (Some malformedSignatureError)"
proof -
  note T = Verify_splits_at_comma_space
  have i1: "Index ''sig1=(Date);keyid=key1,sig2=(Date);keyid=key2'' '', '' = None"
    by code_simp
  have i2: "Index ''sig1=:BQ==:'' '', '' = None"
    by code_simp
  have i3: "Index ''sig1=:BQ==:, sig2=:AA==:'' '', '' = Some 11"
    by code_simp
  have s: "sigHdr bareComma = ''sig1=:BQ==:, sig2=:AA==:''"
    and p: "paramHdr bareComma = ''sig1=(Date);keyid=key1,sig2=(Date);keyid=key2''"
    by (simp_all add: bareComma_def sample_sigHdr sample_paramHdr)
  have c1: "Split ''sig1=(Date);keyid=key1,sig2=(Date);keyid=key2'' '', ''
       = [''sig1=(Date);keyid=key1,sig2=(Date);keyid=key2'']"
    by (rule T [THEN conjunct2, THEN conjunct2, THEN conjunct1, rule_format, OF i1])
  have c2: "Split (''sig1=:BQ==:'' @ '', '' @ '' sig2=:AA==:'') '', ''
       = ''sig1=:BQ==:'' # Split '' sig2=:AA==:'' '', ''"
    by (rule T [THEN conjunct2, THEN conjunct2, THEN conjunct2, THEN conjunct1, rule_format,
          OF i2])
  have h: "sigHdr bareComma \<noteq> [] \<and> paramHdr bareComma \<noteq> []
        \<and> (Index (sigHdr bareComma) '', '' = None) \<noteq> (Index (paramHdr bareComma) '', '' = None)"
    by (simp only: s p i1 i3) simp
  have c3: "Verify sampleDeps sampleVerifier bareComma = Returns (Some malformedSignatureError)"
    by (rule T [THEN conjunct2, THEN conjunct2, THEN conjunct2, THEN conjunct2, rule_format,
          OF h])
  have i3': "Index (sigHdr bareComma) '', '' = Some 11"
    by (simp only: s i3)
  show ?thesis
    by (intro conjI) (fact i1 c1 i2 c2 s p i3' c3)+
qed

text \<open>
  C10 as first worded has entries separated by a comma and extra spaces not split. They are
  split, at the comma and the first space.
\<close>

theorem Split_double_space:
  "Split ''sig1=:BQ==:,  sig2=:AA==:'' '', '' = [''sig1=:BQ==:'', '' sig2=:AA==:'']
   \<and> length (Split ''sig1=:BQ==:,  sig2=:AA==:'' '', '') = 2"
  by code_simp

end
